theory Spec2Isabelle
  imports Complex_Main
begin

section \<open>Configuration constants (src/config/constants.ts)\<close>

text \<open>
  Times are milliseconds as returned by \<^verbatim>\<open>Date.now()\<close>, modelled as \<open>int\<close>. The
  integrity score and the deductions are JavaScript numbers that only ever hold integers;
  they are modelled as \<open>int\<close>. Classifier confidences are modelled as \<open>real\<close>.
\<close>

record score_deductions =
  LOOKING_AWAY :: int
  FACE_ABSENT :: int
  MULTIPLE_FACES :: int
  PHONE_DETECTED :: int
  BOOK_DETECTED :: int

record event_cooldown =
  FACE_EVENTS :: int
  OBJECT_EVENTS :: int

record detection_config =
  FACE_ABSENT_THRESHOLD :: int
  LOOKING_AWAY_THRESHOLD :: int
  OBJECT_DETECTION_INTERVAL :: int
  CONFIDENCE_THRESHOLD :: real
  SCORE_DEDUCTIONS :: score_deductions
  VIDEO_WIDTH :: int
  VIDEO_HEIGHT :: int
  EVENT_COOLDOWN :: event_cooldown

definition DETECTION_CONFIG :: detection_config where
  "DETECTION_CONFIG =
     \<lparr> FACE_ABSENT_THRESHOLD = 10000,
       LOOKING_AWAY_THRESHOLD = 5000,
       OBJECT_DETECTION_INTERVAL = 3000,
       CONFIDENCE_THRESHOLD = 6 / 10,
       SCORE_DEDUCTIONS =
         \<lparr> LOOKING_AWAY = 5, FACE_ABSENT = 10, MULTIPLE_FACES = 15,
           PHONE_DETECTED = 20, BOOK_DETECTED = 20 \<rparr>,
       VIDEO_WIDTH = 1280,
       VIDEO_HEIGHT = 720,
       EVENT_COOLDOWN = \<lparr> FACE_EVENTS = 5000, OBJECT_EVENTS = 10000 \<rparr> \<rparr>"

definition TARGET_OBJECTS :: "string list" where
  "TARGET_OBJECTS = [''cell phone'', ''book'', ''laptop'', ''mouse'', ''keyboard'']"

text \<open>\<^verbatim>\<open>EVENT_TYPES\<close> and the union type \<^verbatim>\<open>ProctoringEvent["type"]\<close>.\<close>

datatype event_type = face_absent | looking_away | multiple_faces | phone_detected | book_detected

text \<open>\<^verbatim>\<open>SEVERITY_LEVELS\<close> and the union type \<^verbatim>\<open>ProctoringEvent["severity"]\<close>.\<close>

datatype severity = low | medium | high


section \<open>Event forwarding (useEventLogging: logEvent)\<close>

text \<open>
  The body sent to \<^verbatim>\<open>/api/log-event\<close>: the event spread, the interview id and the
  timestamp.
\<close>

record log_request =
  lr_type :: event_type
  lr_description :: string
  lr_severity :: severity
  lr_interviewId :: string
  lr_timestamp :: int

text \<open>
  What \<^verbatim>\<open>fetch\<close> and \<^verbatim>\<open>response.json()\<close> can do: the fetch promise rejects (store
  unreachable), or it resolves to a response with its \<^verbatim>\<open>ok\<close> flag and a body that
  either parses (to an opaque JSON text) or makes \<^verbatim>\<open>json()\<close> reject.
\<close>

datatype fetch_outcome = FetchRejects | HttpResponse bool "string option"

datatype exn = NetworkError | Error string | SyntaxError

text \<open>The body of the \<^verbatim>\<open>try\<close> block of logEvent; \<open>Inl\<close> is a throw.\<close>

definition logEvent_try ::
  "string \<Rightarrow> (log_request \<Rightarrow> fetch_outcome) \<Rightarrow> event_type \<Rightarrow> string \<Rightarrow> severity \<Rightarrow> int
     \<Rightarrow> exn + string" where
  "logEvent_try interviewId fetch ty description sev ts =
     (case fetch \<lparr> lr_type = ty, lr_description = description, lr_severity = sev,
                    lr_interviewId = interviewId, lr_timestamp = ts \<rparr> of
        FetchRejects \<Rightarrow> Inl NetworkError
      | HttpResponse ok body \<Rightarrow>
          if \<not> ok then Inl (Error ''Failed to log event'')
          else (case body of None \<Rightarrow> Inl SyntaxError | Some result \<Rightarrow> Inr result))"

text \<open>
  logEvent: the \<^verbatim>\<open>catch\<close> clause turns every throw of the body into the value
  \<^verbatim>\<open>null\<close> (\<open>None\<close>). The result type keeps an \<open>Inl\<close> side for an exception that would
  escape to the caller.
\<close>

definition logEvent ::
  "string \<Rightarrow> (log_request \<Rightarrow> fetch_outcome) \<Rightarrow> event_type \<Rightarrow> string \<Rightarrow> severity \<Rightarrow> int
     \<Rightarrow> exn + string option" where
  "logEvent interviewId fetch ty description sev ts =
     (case logEvent_try interviewId fetch ty description sev ts of
        Inr result \<Rightarrow> Inr (Some result)
      | Inl error \<Rightarrow> Inr None)"


section \<open>The interview page (InterviewPage)\<close>

record ProctoringEvent =
  ev_id :: int
  ev_type :: event_type
  ev_timestamp :: int
  ev_description :: string
  ev_severity :: severity

text \<open>
  The object stopProctoring serialises into the sessionStorage item
  \<^verbatim>\<open>currentReport\<close>. \<^verbatim>\<open>JSON.stringify\<close> followed by \<^verbatim>\<open>JSON.parse\<close> is taken as the
  identity on it (dates travel as ISO strings of the same millisecond).
\<close>

record reportData =
  rd_interviewId :: string
  rd_events :: "ProctoringEvent list"
  rd_integrityScore :: int
  rd_duration :: int
  rd_startTime :: "int option"
  rd_endTime :: int

text \<open>
  The sessionStorage item is text: either the JSON of a \<open>reportData\<close>, or some other
  text that \<^verbatim>\<open>JSON.parse\<close> or the conversion rejects.
\<close>

datatype storage_item = ReportJson reportData | OtherText

text \<open>
  The state of the page: its React state (\<open>isProctoring\<close>, \<open>cameraActive\<close>, \<open>events\<close>,
  \<open>integrityScore\<close>, \<open>interviewDuration\<close>), its refs (\<open>startTimeRef\<close>,
  \<open>lastEventTimeRef\<close>, \<open>interviewIdRef\<close>) and the sessionStorage item
  \<^verbatim>\<open>currentReport\<close> that it writes. \<open>ev_id\<close> is the number whose decimal rendering
  \<^verbatim>\<open>Date.now().toString()\<close> is the event's id. The display-only state
  (\<^verbatim>\<open>detectionStatus\<close>, \<^verbatim>\<open>initializingDetection\<close>) is left out.

  \<open>awaitingLog\<close> holds the calls of addEvent that are suspended at
  \<^verbatim>\<open>await logEvent(...)\<close>, each with the event it built; a call stays there until its
  fetch settles, which may be never.

  The clock is an input: each function takes as arguments the readings of
  \<^verbatim>\<open>Date.now()\<close> and \<^verbatim>\<open>new Date()\<close> that its own body makes.
\<close>

record page =
  isProctoring :: bool
  cameraActive :: bool
  events :: "ProctoringEvent list"
  integrityScore :: int
  interviewDuration :: int
  startTimeRef :: "int option"
  lastEventTimeRef :: "string \<rightharpoonup> int"
  interviewIdRef :: string
  currentReport :: "storage_item option"
  awaitingLog :: "ProctoringEvent list"

text \<open>The first render: the \<^verbatim>\<open>useState\<close> and \<^verbatim>\<open>useRef\<close> initial values.\<close>

definition InterviewPage :: "string \<Rightarrow> storage_item option \<Rightarrow> page" where
  "InterviewPage interviewId stored =
     \<lparr> isProctoring = False, cameraActive = False, events = [], integrityScore = 100,
       interviewDuration = 0, startTimeRef = None, lastEventTimeRef = Map.empty,
       interviewIdRef = interviewId, currentReport = stored, awaitingLog = [] \<rparr>"

text \<open>The \<^verbatim>\<open>switch\<close> of addEvent that picks the deduction.\<close>

fun scoreDeduction :: "event_type \<Rightarrow> int" where
  "scoreDeduction looking_away = LOOKING_AWAY (SCORE_DEDUCTIONS DETECTION_CONFIG)"
| "scoreDeduction face_absent = FACE_ABSENT (SCORE_DEDUCTIONS DETECTION_CONFIG)"
| "scoreDeduction phone_detected = PHONE_DETECTED (SCORE_DEDUCTIONS DETECTION_CONFIG)"
| "scoreDeduction book_detected = PHONE_DETECTED (SCORE_DEDUCTIONS DETECTION_CONFIG)"
| "scoreDeduction multiple_faces = MULTIPLE_FACES (SCORE_DEDUCTIONS DETECTION_CONFIG)"

text \<open>
  addEvent up to its \<^verbatim>\<open>await\<close>. \<open>reads\<close> are its two clock readings: \<^verbatim>\<open>Date.now()\<close>
  for the id and \<^verbatim>\<open>new Date()\<close> for the timestamp. The event is appended (a functional
  updater), logEvent is called, which sends the request, and the call is suspended.
\<close>

definition addEvent :: "page \<Rightarrow> int \<times> int \<Rightarrow> event_type \<Rightarrow> string \<Rightarrow> severity \<Rightarrow> page" where
  "addEvent st reads ty description sev =
     (let newEvent = \<lparr> ev_id = fst reads, ev_type = ty, ev_timestamp = snd reads,
                        ev_description = description, ev_severity = sev \<rparr>
      in st\<lparr>events := events st @ [newEvent], awaitingLog := awaitingLog st @ [newEvent]\<rparr>)"

text \<open>
  addEvent after its \<^verbatim>\<open>await\<close>: the fetch of the \<open>n\<close>-th suspended call settles the way
  \<open>fetch\<close> says, logEvent returns, and the call goes on to the score update (a functional
  updater). An exception escaping logEvent would end the call before the score update.
\<close>

definition addEvent_resume :: "page \<Rightarrow> nat \<Rightarrow> (log_request \<Rightarrow> fetch_outcome) \<Rightarrow> page" where
  "addEvent_resume st n fetch =
     (if n < length (awaitingLog st) then
        (let newEvent = awaitingLog st ! n;
             st1 = st\<lparr>awaitingLog := take n (awaitingLog st) @ drop (Suc n) (awaitingLog st)\<rparr>
         in case logEvent (interviewIdRef st) fetch (ev_type newEvent) (ev_description newEvent)
                   (ev_severity newEvent) (ev_timestamp newEvent) of
              Inl error \<Rightarrow> st1
            | Inr result \<Rightarrow>
                st1\<lparr>integrityScore :=
                      max 0 (integrityScore st1 - scoreDeduction (ev_type newEvent))\<rparr>)
      else st)"

text \<open>addDemoEvent (bypasses deduplication).\<close>

definition addDemoEvent :: "page \<Rightarrow> int \<times> int \<Rightarrow> event_type \<Rightarrow> string \<Rightarrow> severity \<Rightarrow> page" where
  "addDemoEvent st reads ty description sev = addEvent st reads ty description sev"

text \<open>
  The condition written at each of the five gates:
  \<^verbatim>\<open>lastEventTimeRef.current[eventKey] && now - lastEventTimeRef.current[eventKey] < cooldown\<close>.
  A missing entry is \<^verbatim>\<open>undefined\<close> and an entry \<open>0\<close> is falsy: in both cases the
  conjunction is false.
\<close>

definition inCooldown :: "(string \<rightharpoonup> int) \<Rightarrow> string \<Rightarrow> int \<Rightarrow> int \<Rightarrow> bool" where
  "inCooldown ledger eventKey now cooldown =
     (case ledger eventKey of
        None \<Rightarrow> False
      | Some lastTime \<Rightarrow> lastTime \<noteq> 0 \<and> now - lastTime < cooldown)"

text \<open>The argument of the face-detection callback.\<close>

record 'f FaceDetectionResult =
  hasFace :: bool
  faceCount :: nat
  isLookingAway :: bool
  landmarks :: "'f list option"

text \<open>
  handleFaceDetection. \<open>now\<close> is its own reading of \<^verbatim>\<open>Date.now()\<close>; \<open>clock\<close> gives, for
  the kind of event handed to addEvent, the readings that addEvent then makes.
\<close>

definition handleFaceDetection ::
  "page \<Rightarrow> int \<Rightarrow> (event_type \<Rightarrow> int \<times> int) \<Rightarrow> 'f FaceDetectionResult \<Rightarrow> page" where
  "handleFaceDetection st now clock result =
     (if \<not> hasFace result then
        (let eventKey = ''face_absent'' in
         if inCooldown (lastEventTimeRef st) eventKey now
              (FACE_EVENTS (EVENT_COOLDOWN DETECTION_CONFIG))
         then st
         else addEvent (st\<lparr>lastEventTimeRef := (lastEventTimeRef st)(eventKey \<mapsto> now)\<rparr>)
                (clock face_absent) face_absent ''No face detected in frame'' high)
      else if faceCount result > 1 then
        (let eventKey = ''multiple_faces'' in
         if inCooldown (lastEventTimeRef st) eventKey now
              (FACE_EVENTS (EVENT_COOLDOWN DETECTION_CONFIG))
         then st
         else addEvent (st\<lparr>lastEventTimeRef := (lastEventTimeRef st)(eventKey \<mapsto> now)\<rparr>)
                (clock multiple_faces) multiple_faces ''Multiple faces detected in frame'' high)
      else if isLookingAway result then
        (let eventKey = ''looking_away'' in
         if inCooldown (lastEventTimeRef st) eventKey now
              (FACE_EVENTS (EVENT_COOLDOWN DETECTION_CONFIG))
         then st
         else addEvent (st\<lparr>lastEventTimeRef := (lastEventTimeRef st)(eventKey \<mapsto> now)\<rparr>)
                (clock looking_away) looking_away ''Candidate looked away from screen'' medium)
      else st)"

text \<open>An entry of the list handed to the object-detection callback.\<close>

record DetectionResult =
  dr_class :: string
  dr_confidence :: real
  dr_bbox :: "real \<times> real \<times> real \<times> real"

text \<open>The body of the \<^verbatim>\<open>forEach\<close> of handleObjectDetection, for one detection.\<close>

definition handleObjectDetection_each ::
  "int \<Rightarrow> (event_type \<Rightarrow> int \<times> int) \<Rightarrow> page \<Rightarrow> DetectionResult \<Rightarrow> page" where
  "handleObjectDetection_each now clock st detection =
     (if dr_class detection = ''cell phone'' then
        (let eventKey = ''phone_detected'' in
         if inCooldown (lastEventTimeRef st) eventKey now
              (OBJECT_EVENTS (EVENT_COOLDOWN DETECTION_CONFIG))
         then st
         else addEvent (st\<lparr>lastEventTimeRef := (lastEventTimeRef st)(eventKey \<mapsto> now)\<rparr>)
                (clock phone_detected) phone_detected ''Mobile phone detected in frame'' high)
      else if dr_class detection = ''book'' then
        (let eventKey = ''book_detected'' in
         if inCooldown (lastEventTimeRef st) eventKey now
              (OBJECT_EVENTS (EVENT_COOLDOWN DETECTION_CONFIG))
         then st
         else addEvent (st\<lparr>lastEventTimeRef := (lastEventTimeRef st)(eventKey \<mapsto> now)\<rparr>)
                (clock book_detected) book_detected ''Book or notes detected in frame'' high)
      else st)"

definition handleObjectDetection ::
  "page \<Rightarrow> int \<Rightarrow> (event_type \<Rightarrow> int \<times> int) \<Rightarrow> DetectionResult list \<Rightarrow> page" where
  "handleObjectDetection st now clock detections =
     foldl (handleObjectDetection_each now clock) st detections"

text \<open>initializeCamera: \<^verbatim>\<open>getUserMedia\<close> resolves (\<open>granted\<close>) or rejects.\<close>

definition initializeCamera :: "page \<Rightarrow> bool \<Rightarrow> page" where
  "initializeCamera st granted = (if granted then st\<lparr>cameraActive := True\<rparr> else st)"

text \<open>startProctoring: the resets of the page's own state (the model initialisations that
  follow them are in \<open>startProctoring_system\<close>).\<close>

definition startProctoring :: "page \<Rightarrow> int \<Rightarrow> page" where
  "startProctoring st now =
     st\<lparr>isProctoring := True, startTimeRef := Some now, events := [],
        integrityScore := 100, interviewDuration := 0\<rparr>"

text \<open>The one-second interval that updates the displayed duration.\<close>

definition updateDuration :: "page \<Rightarrow> int \<Rightarrow> page" where
  "updateDuration st now =
     (case startTimeRef st of
        Some start \<Rightarrow>
          if isProctoring st then st\<lparr>interviewDuration := (now - start) div 1000\<rparr> else st
      | None \<Rightarrow> st)"

text \<open>
  stopProctoring. The camera flag is cleared when \<^verbatim>\<open>streamRef.current\<close> is set, which is
  exactly when the flag was set.
\<close>

definition stopProctoring :: "page \<Rightarrow> int \<Rightarrow> page" where
  "stopProctoring st now =
     (let reportData =
            \<lparr> rd_interviewId = interviewIdRef st, rd_events = events st,
              rd_integrityScore = integrityScore st, rd_duration = interviewDuration st,
              rd_startTime = startTimeRef st, rd_endTime = now \<rparr>
      in st\<lparr>isProctoring := False, cameraActive := False,
            currentReport := Some (ReportJson reportData)\<rparr>)"



section \<open>The face-detection hook (useFaceDetection)\<close>

text \<open>
  The refs of the hook that its result callbacks read and write. \<^verbatim>\<open>useRef(Date.now())\<close>
  gives both timers the time of the hook's first render.
\<close>

record face_hook =
  lastFaceTimeRef :: int
  lastLookingAwayTimeRef :: int
  isModelReadyRef :: bool

definition useFaceDetection :: "int \<Rightarrow> face_hook" where
  "useFaceDetection now =
     \<lparr> lastFaceTimeRef = now, lastLookingAwayTimeRef = now, isModelReadyRef = False \<rparr>"

text \<open>
  The argument of a result callback is \<^verbatim>\<open>results.multiFaceLandmarks\<close>: \<open>None\<close> when it
  is undefined, otherwise the list of faces (each an opaque value of type \<open>'f\<close>).
\<close>

definition hasFace_of :: "'f list option \<Rightarrow> bool" where
  "hasFace_of multiFaceLandmarks =
     (case multiFaceLandmarks of None \<Rightarrow> False | Some faces \<Rightarrow> length faces > 0)"

definition faceCount_of :: "'f list option \<Rightarrow> nat" where
  "faceCount_of multiFaceLandmarks =
     (case multiFaceLandmarks of None \<Rightarrow> 0 | Some faces \<Rightarrow> length faces)"

text \<open>
  The callback registered on the real face mesh, in the variant of the hook that also
  refreshes the looking-away timer. The result is the new refs and the call made to
  \<^verbatim>\<open>onFaceDetection\<close>, if any. \<open>isActive\<close> is the prop of the hook; \<open>now\<close> stands for
  the readings of the clock in the callback's body (one on each path, and a second for the
  looking-away timer).
\<close>

definition onResults ::
  "bool \<Rightarrow> int \<Rightarrow> face_hook \<Rightarrow> 'f list option \<Rightarrow> face_hook \<times> 'f FaceDetectionResult option" where
  "onResults isActive now h multiFaceLandmarks =
     (if \<not> isActive \<or> \<not> isModelReadyRef h then (h, None)
      else
        let hasFace = hasFace_of multiFaceLandmarks;
            faceCount = faceCount_of multiFaceLandmarks;
            h1 = (if hasFace then h\<lparr>lastFaceTimeRef := now\<rparr> else h)
        in if faceCount > 1 then
             (h1, Some \<lparr> hasFace = True, faceCount = faceCount, isLookingAway = False,
                         landmarks = multiFaceLandmarks \<rparr>)
           else
             let call =
                   (if \<not> hasFace \<and> now - lastFaceTimeRef h1 > FACE_ABSENT_THRESHOLD DETECTION_CONFIG
                    then Some \<lparr> hasFace = False, faceCount = 0, isLookingAway = False,
                                landmarks = None \<rparr>
                    else None);
                 h2 = (if hasFace \<and> multiFaceLandmarks \<noteq> None \<and> faceCount_of multiFaceLandmarks > 0
                       then h1\<lparr>lastLookingAwayTimeRef := now\<rparr> else h1)
             in (h2, call))"

text \<open>The same callback in the variant of the hook without the looking-away refresh.\<close>

definition onResults_plain ::
  "bool \<Rightarrow> int \<Rightarrow> face_hook \<Rightarrow> 'f list option \<Rightarrow> face_hook \<times> 'f FaceDetectionResult option" where
  "onResults_plain isActive now h multiFaceLandmarks =
     (if \<not> isActive \<or> \<not> isModelReadyRef h then (h, None)
      else
        let hasFace = hasFace_of multiFaceLandmarks;
            faceCount = faceCount_of multiFaceLandmarks;
            h1 = (if hasFace then h\<lparr>lastFaceTimeRef := now\<rparr> else h)
        in if faceCount > 1 then
             (h1, Some \<lparr> hasFace = True, faceCount = faceCount, isLookingAway = False,
                         landmarks = multiFaceLandmarks \<rparr>)
           else
             (h1, if \<not> hasFace \<and> now - lastFaceTimeRef h1 > FACE_ABSENT_THRESHOLD DETECTION_CONFIG
                  then Some \<lparr> hasFace = False, faceCount = 0, isLookingAway = False,
                              landmarks = None \<rparr>
                  else None))"

text \<open>
  The callback registered on the mock face mesh (the fallback when the real one cannot be
  loaded); it is the same in both variants of the hook. It refreshes the timer only in the
  \<^verbatim>\<open>else\<close> of the absence test, after the early return for several faces.
\<close>

definition onResults_mock ::
  "bool \<Rightarrow> int \<Rightarrow> face_hook \<Rightarrow> 'f list option \<Rightarrow> face_hook \<times> 'f FaceDetectionResult option" where
  "onResults_mock isActive now h multiFaceLandmarks =
     (if \<not> isActive \<or> \<not> isModelReadyRef h then (h, None)
      else
        let hasFace = hasFace_of multiFaceLandmarks;
            faceCount = faceCount_of multiFaceLandmarks
        in if faceCount > 1 then
             (h, Some \<lparr> hasFace = True, faceCount = faceCount, isLookingAway = False,
                        landmarks = multiFaceLandmarks \<rparr>)
           else if \<not> hasFace then
             (h, if now - lastFaceTimeRef h > FACE_ABSENT_THRESHOLD DETECTION_CONFIG
                 then Some \<lparr> hasFace = False, faceCount = 0, isLookingAway = False,
                             landmarks = None \<rparr>
                 else None)
           else (h\<lparr>lastFaceTimeRef := now\<rparr>, None))"

text \<open>
  Which face mesh initializeFaceMesh installed in \<^verbatim>\<open>faceMeshRef\<close>, and so which callback
  receives the results.
\<close>

datatype face_mesh = FaceMesh | FaceMesh_plain | MockFaceMesh

fun callback ::
  "face_mesh \<Rightarrow> bool \<Rightarrow> int \<Rightarrow> face_hook \<Rightarrow> 'f list option
     \<Rightarrow> face_hook \<times> 'f FaceDetectionResult option" where
  "callback FaceMesh = onResults"
| "callback FaceMesh_plain = onResults_plain"
| "callback MockFaceMesh = onResults_mock"



section \<open>The object-detection hook (useObjectDetection)\<close>

text \<open>An entry of the classifier's output.\<close>

record prediction =
  pr_class :: string
  pr_score :: real
  pr_bbox :: "real \<times> real \<times> real \<times> real"

record object_hook =
  modelRef :: bool
  isDetectingRef :: bool
  od_isModelReadyRef :: bool

definition useObjectDetection :: object_hook where
  "useObjectDetection = \<lparr> modelRef = False, isDetectingRef = False, od_isModelReadyRef = False \<rparr>"

text \<open>loadModel: the model loads (\<open>loaded\<close>) or the load throws, which is caught and logged.\<close>

definition loadModel :: "object_hook \<Rightarrow> bool \<Rightarrow> object_hook" where
  "loadModel h loaded =
     (if modelRef h then h
      else if loaded then h\<lparr>modelRef := True, od_isModelReadyRef := True\<rparr>
      else h)"

text \<open>The \<^verbatim>\<open>filter\<close> and \<^verbatim>\<open>map\<close> chain of runDetection.\<close>

definition targetDetections :: "prediction list \<Rightarrow> DetectionResult list" where
  "targetDetections predictions =
     map (\<lambda>prediction. \<lparr> dr_class = pr_class prediction, dr_confidence = pr_score prediction,
                           dr_bbox = pr_bbox prediction \<rparr>)
       (filter (\<lambda>prediction. List.member TARGET_OBJECTS (pr_class prediction)
                  \<and> pr_score prediction \<ge> CONFIDENCE_THRESHOLD DETECTION_CONFIG)
          predictions)"

datatype detect_outcome = DetectThrows | Predictions "prediction list"

text \<open>
  runDetection: the guards, the detection (which may throw into the \<^verbatim>\<open>catch\<close>), and the
  call to \<^verbatim>\<open>onObjectDetection\<close> when at least one detection is retained. \<open>video\<close> says
  that \<^verbatim>\<open>videoRef.current\<close> is set.
\<close>

definition runDetection ::
  "object_hook \<Rightarrow> bool \<Rightarrow> detect_outcome \<Rightarrow> object_hook \<times> DetectionResult list option" where
  "runDetection h video outcome =
     (if \<not> modelRef h \<or> \<not> video \<or> isDetectingRef h \<or> \<not> od_isModelReadyRef h then (h, None)
      else
        (h\<lparr>isDetectingRef := False\<rparr>,
         case outcome of
           DetectThrows \<Rightarrow> None
         | Predictions predictions \<Rightarrow>
             if length (targetDetections predictions) > 0
             then Some (targetDetections predictions) else None))"


section \<open>The report page (ReportPage)\<close>

record InterviewReport =
  report_interviewId :: string
  report_duration :: int
  report_events :: "ProctoringEvent list"
  report_integrityScore :: int
  report_startTime :: int
  report_endTime :: int

text \<open>
  loadReport: reads the sessionStorage item, builds the report and removes the item; with
  no item it builds the demo report, and when parsing or converting throws it builds the
  empty report (the item is then not removed). \<^verbatim>\<open>new Date(null)\<close> is the epoch, time 0.
  The result is the report given to \<^verbatim>\<open>setReport\<close> and the item left in the storage.
\<close>

definition loadReport :: "storage_item option \<Rightarrow> int \<Rightarrow> InterviewReport \<times> storage_item option" where
  "loadReport currentReportData now =
     (case currentReportData of
        Some (ReportJson sessionData) \<Rightarrow>
          (\<lparr> report_interviewId = rd_interviewId sessionData,
             report_duration = rd_duration sessionData,
             report_events = rd_events sessionData,
             report_integrityScore = rd_integrityScore sessionData,
             report_startTime = (case rd_startTime sessionData of None \<Rightarrow> 0 | Some t \<Rightarrow> t),
             report_endTime = rd_endTime sessionData \<rparr>,
           None)
      | Some OtherText \<Rightarrow>
          (\<lparr> report_interviewId = ''error-interview'', report_duration = 0, report_events = [],
             report_integrityScore = 100, report_startTime = now, report_endTime = now \<rparr>,
           Some OtherText)
      | None \<Rightarrow>
          (\<lparr> report_interviewId = ''demo-interview'', report_duration = 0, report_events = [],
             report_integrityScore = 100, report_startTime = now, report_endTime = now \<rparr>,
           None))"


section \<open>The page with its two hooks, driven by what the browser delivers\<close>

record system =
  sys_page :: page
  sys_face :: face_hook
  faceMeshRef :: "face_mesh option"
  sys_object :: object_hook

text \<open>The first render of the page: the page's state and the two hooks' refs.\<close>

definition mount :: "int \<Rightarrow> string \<Rightarrow> storage_item option \<Rightarrow> system" where
  "mount now interviewId stored =
     \<lparr> sys_page = InterviewPage interviewId stored, sys_face = useFaceDetection now,
       faceMeshRef = None, sys_object = useObjectDetection \<rparr>"

text \<open>
  initializeFaceMesh: with a mesh already installed it returns at once; otherwise it installs
  the real mesh or, when loading it throws, the mock one (\<open>installed\<close> says which), and sets
  \<^verbatim>\<open>isModelReadyRef\<close> in both cases.
\<close>

definition initializeFaceMesh :: "system \<Rightarrow> face_mesh \<Rightarrow> system" where
  "initializeFaceMesh s installed =
     (if faceMeshRef s \<noteq> None then s
      else s\<lparr>faceMeshRef := Some installed,
             sys_face := (sys_face s)\<lparr>isModelReadyRef := True\<rparr>\<rparr>)"

text \<open>startProctoring: the resets of the page's state, then the two model initialisations.\<close>

definition startProctoring_system :: "system \<Rightarrow> int \<Rightarrow> face_mesh \<Rightarrow> bool \<Rightarrow> system" where
  "startProctoring_system s now installed loaded =
     (let s1 = s\<lparr>sys_page := startProctoring (sys_page s) now\<rparr>;
          s2 = initializeFaceMesh s1 installed
      in s2\<lparr>sys_object := loadModel (sys_object s2) loaded\<rparr>)"

text \<open>
  The four buttons of the demo controls and the arguments each passes to addDemoEvent.
\<close>

datatype demo_button =
  SimulateFaceAbsent | SimulatePhoneDetected | SimulateBookDetected | SimulateMultipleFaces

fun demo_args :: "demo_button \<Rightarrow> event_type \<times> string \<times> severity" where
  "demo_args SimulateFaceAbsent = (face_absent, ''No face detected in frame'', high)"
| "demo_args SimulatePhoneDetected = (phone_detected, ''Mobile phone detected in frame'', high)"
| "demo_args SimulateBookDetected = (book_detected, ''Book or notes detected in frame'', high)"
| "demo_args SimulateMultipleFaces = (multiple_faces, ''Multiple faces detected in frame'', high)"

text \<open>
  What can happen to the mounted page: a click on one of its buttons (each is rendered only
  in the state the \<open>step\<close> function tests), a result of the face mesh, a tick of the
  object-detection interval with the outcome of the classifier, a tick of the duration
  interval, the settling of the fetch of a suspended addEvent call. Each carries the clock
  readings made while it is handled: for a face result, the reading of the hook's callback,
  the reading of handleFaceDetection and the readings of addEvent. The hooks' callbacks are
  given the current value of the prop \<^verbatim>\<open>isActive\<close>, which the page computes as
  \<^verbatim>\<open>isProctoring && cameraActive\<close>; the video element is always rendered, so
  \<^verbatim>\<open>videoRef.current\<close> is set.
\<close>

datatype 'f action =
    ClickInitializeCamera bool
  | ClickStartProctoring int face_mesh bool
  | ClickStopProctoring int
  | ClickDemo "int \<times> int" demo_button
  | FaceResults int int "event_type \<Rightarrow> int \<times> int" "'f list option"
  | ObjectTick int "event_type \<Rightarrow> int \<times> int" detect_outcome
  | DurationTick int
  | FetchSettles nat "log_request \<Rightarrow> fetch_outcome"

definition isActive_prop :: "page \<Rightarrow> bool" where
  "isActive_prop p = (isProctoring p \<and> cameraActive p)"

fun step :: "system \<Rightarrow> 'f action \<Rightarrow> system" where
  "step s (ClickInitializeCamera granted) =
     (if \<not> cameraActive (sys_page s)
      then s\<lparr>sys_page := initializeCamera (sys_page s) granted\<rparr> else s)"
| "step s (ClickStartProctoring now installed loaded) =
     (if cameraActive (sys_page s) \<and> \<not> isProctoring (sys_page s)
      then startProctoring_system s now installed loaded else s)"
| "step s (ClickStopProctoring now) =
     (if cameraActive (sys_page s) \<and> isProctoring (sys_page s)
      then s\<lparr>sys_page := stopProctoring (sys_page s) now\<rparr> else s)"
| "step s (ClickDemo reads button) =
     (if isProctoring (sys_page s)
      then (case demo_args button of (ty, description, sev) \<Rightarrow>
              s\<lparr>sys_page := addDemoEvent (sys_page s) reads ty description sev\<rparr>)
      else s)"
| "step s (FaceResults frameTime now clock multiFaceLandmarks) =
     (case faceMeshRef s of
        None \<Rightarrow> s
      | Some m \<Rightarrow>
          (case callback m (isActive_prop (sys_page s)) frameTime (sys_face s)
                  multiFaceLandmarks of
             (h, call) \<Rightarrow>
               s\<lparr>sys_face := h,
                 sys_page := (case call of
                                None \<Rightarrow> sys_page s
                              | Some result \<Rightarrow> handleFaceDetection (sys_page s) now clock result)\<rparr>))"
| "step s (ObjectTick now clock outcome) =
     (if isActive_prop (sys_page s) \<and> \<not> isDetectingRef (sys_object s)
           \<and> od_isModelReadyRef (sys_object s)
      then (case runDetection (sys_object s) True outcome of
              (h, call) \<Rightarrow>
                s\<lparr>sys_object := h,
                  sys_page := (case call of
                                 None \<Rightarrow> sys_page s
                               | Some detections \<Rightarrow>
                                   handleObjectDetection (sys_page s) now clock detections)\<rparr>)
      else s)"
| "step s (DurationTick now) = s\<lparr>sys_page := updateDuration (sys_page s) now\<rparr>"
| "step s (FetchSettles n fetch) = s\<lparr>sys_page := addEvent_resume (sys_page s) n fetch\<rparr>"

definition run :: "system \<Rightarrow> 'f action list \<Rightarrow> system" where
  "run s actions = foldl step s actions"


section \<open>Predicates of the claims\<close>

text \<open>The cooldown windows as the specification words them.\<close>

fun spec_cooldown :: "event_type \<Rightarrow> int" where
  "spec_cooldown face_absent = 5000"
| "spec_cooldown looking_away = 5000"
| "spec_cooldown multiple_faces = 5000"
| "spec_cooldown phone_detected = 10000"
| "spec_cooldown book_detected = 10000"

text \<open>
  Any two logged events of one kind with timestamps \<open>t1 < t2\<close> are at least the kind's
  cooldown apart.
\<close>

definition cooldown_respected :: "ProctoringEvent list \<Rightarrow> bool" where
  "cooldown_respected evs =
     (\<forall>e1 \<in> set evs. \<forall>e2 \<in> set evs.
        ev_type e1 = ev_type e2 \<and> ev_timestamp e1 < ev_timestamp e2
          \<longrightarrow> ev_timestamp e2 - ev_timestamp e1 \<ge> spec_cooldown (ev_type e1))"

text \<open>The key under which each kind's gate keeps its last acceptance time.\<close>

fun eventKey_of :: "event_type \<Rightarrow> string" where
  "eventKey_of face_absent = ''face_absent''"
| "eventKey_of looking_away = ''looking_away''"
| "eventKey_of multiple_faces = ''multiple_faces''"
| "eventKey_of phone_detected = ''phone_detected''"
| "eventKey_of book_detected = ''book_detected''"

text \<open>An action in which the reading of the clock made by a handler, if any, is positive.\<close>

fun positive_clock :: "'f action \<Rightarrow> bool" where
  "positive_clock (FaceResults frameTime now clock multiFaceLandmarks) = (0 < now)"
| "positive_clock (ObjectTick now clock outcome) = (0 < now)"
| "positive_clock a = True"

text \<open>
  The acceptances of the cooldown gates, as kind and time of the gate: the events that a
  handler appended to the log between two states of the page, each with the handler's own
  reading of the clock.
\<close>

definition accepted_between :: "page \<Rightarrow> page \<Rightarrow> int \<Rightarrow> (event_type \<times> int) list" where
  "accepted_between p p' now =
     map (\<lambda>e. (ev_type e, now)) (drop (length (events p)) (events p'))"

text \<open>
  The acceptances of one action: those of the handler that a face result or an object tick
  runs. A click on a demo control goes to addEvent without a gate.
\<close>

fun handler_reading :: "'f action \<Rightarrow> int option" where
  "handler_reading (FaceResults frameTime now clock multiFaceLandmarks) = Some now"
| "handler_reading (ObjectTick now clock outcome) = Some now"
| "handler_reading a = None"

definition gate_accepts :: "system \<Rightarrow> 'f action \<Rightarrow> (event_type \<times> int) list" where
  "gate_accepts s a =
     (case handler_reading a of
        None \<Rightarrow> []
      | Some now \<Rightarrow> accepted_between (sys_page s) (sys_page (step s a)) now)"

text \<open>The acceptances of a run, in order.\<close>

fun acceptances :: "system \<Rightarrow> 'f action list \<Rightarrow> (event_type \<times> int) list" where
  "acceptances s [] = []"
| "acceptances s (a # rest) = gate_accepts s a @ acceptances (step s a) rest"

text \<open>
  A later acceptance is at least the cooldown of its kind after every earlier acceptance of
  that kind.
\<close>

fun spaced_times :: "(event_type \<times> int) list \<Rightarrow> bool" where
  "spaced_times [] = True"
| "spaced_times ((k, t) # later) =
     (list_all (\<lambda>(k2, t2). k2 \<noteq> k \<or> t2 - t \<ge> spec_cooldown k) later \<and> spaced_times later)"

text \<open>The object filter as the specification words it.\<close>

definition spec_retained :: "prediction \<Rightarrow> bool" where
  "spec_retained p =
     (pr_class p \<in> {''cell phone'', ''book'', ''laptop'', ''mouse'', ''keyboard''}
      \<and> pr_score p \<ge> 6 / 10)"


text \<open>The deduction table as the specification words it.\<close>

fun spec_deduction :: "event_type \<Rightarrow> int" where
  "spec_deduction looking_away = 5"
| "spec_deduction face_absent = 10"
| "spec_deduction multiple_faces = 15"
| "spec_deduction phone_detected = 20"
| "spec_deduction book_detected = 20"

text \<open>A click on the start button.\<close>

fun is_start :: "'f action \<Rightarrow> bool" where
  "is_start (ClickStartProctoring now installed loaded) = True"
| "is_start a = False"

text \<open>
  The gate that each of the five branches of the two handlers writes out: within the
  cooldown the candidate is dropped, otherwise its time is recorded and it goes to addEvent.
\<close>

definition gate ::
  "page \<Rightarrow> int \<Rightarrow> int \<times> int \<Rightarrow> string \<Rightarrow> int \<Rightarrow> event_type \<Rightarrow> string \<Rightarrow> severity \<Rightarrow> page" where
  "gate st now reads eventKey cooldown ty description sev =
     (if inCooldown (lastEventTimeRef st) eventKey now cooldown then st
      else addEvent (st\<lparr>lastEventTimeRef := (lastEventTimeRef st)(eventKey \<mapsto> now)\<rparr>)
             reads ty description sev)"

text \<open>The candidate the specification maps a retained detection to.\<close>

definition spec_object_candidate :: "DetectionResult \<Rightarrow> (event_type \<times> string \<times> severity) option" where
  "spec_object_candidate d =
     (if dr_class d = ''cell phone''
        then Some (phone_detected, ''Mobile phone detected in frame'', high)
      else if dr_class d = ''book''
        then Some (book_detected, ''Book or notes detected in frame'', high)
      else None)"

text \<open>
  The object pipeline as the specification words it: each retained detection, in order, is
  mapped to its candidate, and the candidate goes to the gate of 10000 ms of its kind.
\<close>

definition spec_object_step ::
  "int \<Rightarrow> (event_type \<Rightarrow> int \<times> int) \<Rightarrow> page \<Rightarrow> DetectionResult \<Rightarrow> page" where
  "spec_object_step now clock st d =
     (case spec_object_candidate d of
        None \<Rightarrow> st
      | Some (ty, description, sev) \<Rightarrow>
          gate st now (clock ty) (eventKey_of ty) 10000 ty description sev)"


text \<open>
  The invariant that ties the acceptances so far to the ledger of the gates: they are
  spaced, and for each of them the ledger holds a non-zero time for its kind that is not
  before it.
\<close>

definition ledger_ok :: "(event_type \<times> int) list \<Rightarrow> page \<Rightarrow> bool" where
  "ledger_ok past p =
     (spaced_times past
      \<and> list_all (\<lambda>(k, t). case lastEventTimeRef p (eventKey_of k) of
                              None \<Rightarrow> False
                            | Some t' \<Rightarrow> t' \<noteq> 0 \<and> t \<le> t') past)"

text \<open>Two behaviours of the network: the store cannot be reached, the store answers.\<close>

definition store_unreachable :: "log_request \<Rightarrow> fetch_outcome" where
  "store_unreachable req = FetchRejects"

definition store_ok :: "log_request \<Rightarrow> fetch_outcome" where
  "store_ok req = HttpResponse True (Some ''success'')"

text \<open>A clock on which every reading of addEvent returns the same time.\<close>

definition reads_at :: "int \<Rightarrow> event_type \<Rightarrow> int \<times> int" where
  "reads_at t k = (t, t)"


section \<open>The scoring step and forwarding\<close>

lemma scoreDeduction_table: "scoreDeduction k = spec_deduction k"
  by (cases k) (simp_all add: DETECTION_CONFIG_def)

lemma logEvent_returns: "\<exists>r. logEvent iid fetch ty d sev ts = Inr r"
  by (simp add: logEvent_def split: sum.split)

lemma addEvent_resume_eq:
  "addEvent_resume st n fetch =
     (if n < length (awaitingLog st)
      then st\<lparr>awaitingLog := take n (awaitingLog st) @ drop (Suc n) (awaitingLog st),
              integrityScore :=
                max 0 (integrityScore st - spec_deduction (ev_type (awaitingLog st ! n)))\<rparr>
      else st)"
proof -
  obtain r where "logEvent (interviewIdRef st) fetch (ev_type (awaitingLog st ! n))
      (ev_description (awaitingLog st ! n)) (ev_severity (awaitingLog st ! n))
      (ev_timestamp (awaitingLog st ! n)) = Inr r"
    using logEvent_returns by blast
  then show ?thesis
    by (simp add: addEvent_resume_def Let_def scoreDeduction_table)
qed

lemma addEvent_then_resume:
  "integrityScore (addEvent_resume (addEvent st reads k d sev) (length (awaitingLog st)) fetch)
     = max 0 (integrityScore st - spec_deduction k)"
  by (simp add: addEvent_resume_eq addEvent_def Let_def nth_append)

text \<open>
  C2. The score update of an accepted event of kind \<open>k\<close> maps the score \<open>s\<close> to
  \<open>max 0 (s - deduction k)\<close>, with the deductions 5, 10, 15, 20, 20 for looking away, face
  absent, multiple faces, phone detected and book detected: for the update that follows the
  event's own addEvent, and for the update of any suspended call; a book event deducts 20.
\<close>

theorem C2_score_update:
  "integrityScore (addEvent_resume (addEvent st reads k d sev) (length (awaitingLog st)) fetch)
     = max 0 (integrityScore st - spec_deduction k)
   \<and> (n < length (awaitingLog st) \<longrightarrow>
        integrityScore (addEvent_resume st n fetch)
          = max 0 (integrityScore st - spec_deduction (ev_type (awaitingLog st ! n))))
   \<and> integrityScore (addEvent_resume (addEvent st reads book_detected d sev)
        (length (awaitingLog st)) fetch) = max 0 (integrityScore st - 20)
   \<and> scoreDeduction book_detected = 20"
proof (intro conjI impI)
  show "integrityScore (addEvent_resume (addEvent st reads k d sev) (length (awaitingLog st)) fetch)
     = max 0 (integrityScore st - spec_deduction k)"
    by (rule addEvent_then_resume)
  show "integrityScore (addEvent_resume st n fetch)
          = max 0 (integrityScore st - spec_deduction (ev_type (awaitingLog st ! n)))"
    if "n < length (awaitingLog st)"
    using that by (simp add: addEvent_resume_eq)
  show "integrityScore (addEvent_resume (addEvent st reads book_detected d sev)
        (length (awaitingLog st)) fetch) = max 0 (integrityScore st - 20)"
    by (simp only: addEvent_then_resume spec_deduction.simps)
  show "scoreDeduction book_detected = 20"
    by (simp add: DETECTION_CONFIG_def)
qed

text \<open>
  Witness for C2: a book event on the freshly rendered page is suspended at position 0, and
  its score update takes 100 to 80.
\<close>

theorem C2_score_update_witness:
  "0 < length (awaitingLog (addEvent (InterviewPage ''interview-1'' None) (5000, 5000)
         book_detected ''Book or notes detected in frame'' high))
   \<and> integrityScore (addEvent_resume (addEvent (InterviewPage ''interview-1'' None) (5000, 5000)
         book_detected ''Book or notes detected in frame'' high) 0 store_ok) = 80"
  using C2_score_update [of "addEvent (InterviewPage ''interview-1'' None) (5000, 5000)
         book_detected ''Book or notes detected in frame'' high" "(0, 0)" face_absent "''''" high
         store_ok 0]
  by (simp add: addEvent_def InterviewPage_def Let_def)

lemma spec_deduction_nonneg: "0 \<le> spec_deduction k"
  by (cases k) simp_all




section \<open>The range and the monotonicity of the score\<close>

lemma addEvent_score: "integrityScore (addEvent p reads k d sev) = integrityScore p"
  by (simp add: addEvent_def Let_def)

lemma addEvent_resume_score_step:
  assumes "0 \<le> integrityScore p"
  shows "0 \<le> integrityScore (addEvent_resume p n fetch)
         \<and> integrityScore (addEvent_resume p n fetch) \<le> integrityScore p"
  using assms spec_deduction_nonneg [of "ev_type (awaitingLog p ! n)"]
  by (simp add: addEvent_resume_eq)

lemma handleFaceDetection_score:
  "integrityScore (handleFaceDetection p now clock r) = integrityScore p"
  by (simp add: handleFaceDetection_def Let_def addEvent_score)

lemma handleObjectDetection_each_score:
  "integrityScore (handleObjectDetection_each now clock p d) = integrityScore p"
  by (simp add: handleObjectDetection_each_def Let_def addEvent_score)

lemma handleObjectDetection_score:
  "integrityScore (handleObjectDetection p now clock ds) = integrityScore p"
  unfolding handleObjectDetection_def
  by (induction ds arbitrary: p) (simp_all add: handleObjectDetection_each_score)

lemma step_score_le:
  assumes "0 \<le> integrityScore (sys_page s)" and "\<not> is_start a"
  shows "0 \<le> integrityScore (sys_page (step s a))
         \<and> integrityScore (sys_page (step s a)) \<le> integrityScore (sys_page s)"
proof (cases a)
  case (ClickInitializeCamera g)
  then show ?thesis using assms by (simp add: initializeCamera_def)
next
  case (ClickStartProctoring now m l)
  then show ?thesis using assms by simp
next
  case (ClickStopProctoring now)
  then show ?thesis using assms by (simp add: stopProctoring_def Let_def)
next
  case (ClickDemo reads b)
  then show ?thesis using assms
    by (simp add: addDemoEvent_def addEvent_score split: prod.split)
next
  case (FaceResults frameTime now clock r)
  then show ?thesis using assms
    by (simp add: handleFaceDetection_score split: option.split prod.split)
next
  case (ObjectTick now clock outcome)
  then show ?thesis using assms
    by (simp add: handleObjectDetection_score split: option.split prod.split)
next
  case (DurationTick now)
  then show ?thesis using assms by (simp add: updateDuration_def split: option.split)
next
  case (FetchSettles n fetch)
  then show ?thesis using addEvent_resume_score_step [OF assms(1)] by simp
qed

lemma step_score_range:
  assumes "0 \<le> integrityScore (sys_page s) \<and> integrityScore (sys_page s) \<le> 100"
  shows "0 \<le> integrityScore (sys_page (step s a)) \<and> integrityScore (sys_page (step s a)) \<le> 100"
proof (cases "is_start a")
  case False
  then show ?thesis using step_score_le [of s a] assms by linarith
next
  case True
  then obtain now m l where "a = ClickStartProctoring now m l"
    by (cases a) simp_all
  then show ?thesis using assms
    by (simp add: startProctoring_system_def startProctoring_def initializeFaceMesh_def Let_def)
qed

lemma run_score_range:
  "0 \<le> integrityScore (sys_page s) \<and> integrityScore (sys_page s) \<le> 100 \<Longrightarrow>
   0 \<le> integrityScore (sys_page (run s acts)) \<and> integrityScore (sys_page (run s acts)) \<le> 100"
  unfolding run_def
proof (induction acts arbitrary: s)
  case Nil
  then show ?case by simp
next
  case (Cons a acts)
  show ?case using Cons.IH [OF step_score_range [OF Cons.prems]] by simp
qed

lemma mount_score: "integrityScore (sys_page (mount t0 iid stored)) = 100"
  by (simp add: mount_def InterviewPage_def)

text \<open>
  C1. In every state the page reaches from its first render, whatever the browser delivers
  and whenever the forwards settle, the integrity score is between 0 and 100;
  startProctoring sets it to 100; neither part of addEvent raises it; and no action other
  than a click on the start button raises it.
\<close>

theorem C1_score_range_and_monotone:
  "0 \<le> integrityScore (sys_page (run (mount t0 iid stored) acts))
   \<and> integrityScore (sys_page (run (mount t0 iid stored) acts)) \<le> 100
   \<and> integrityScore (startProctoring (sys_page (run (mount t0 iid stored) acts)) now) = 100
   \<and> integrityScore (addEvent (sys_page (run (mount t0 iid stored) acts)) reads k d sev)
        \<le> integrityScore (sys_page (run (mount t0 iid stored) acts))
   \<and> integrityScore (addEvent_resume (sys_page (run (mount t0 iid stored) acts)) n fetch)
        \<le> integrityScore (sys_page (run (mount t0 iid stored) acts))
   \<and> (\<not> is_start a \<longrightarrow>
        integrityScore (sys_page (step (run (mount t0 iid stored) acts) a))
          \<le> integrityScore (sys_page (run (mount t0 iid stored) acts)))"
proof -
  have r: "0 \<le> integrityScore (sys_page (run (mount t0 iid stored) acts))
           \<and> integrityScore (sys_page (run (mount t0 iid stored) acts)) \<le> 100"
    by (rule run_score_range) (simp add: mount_score)
  then have nn: "0 \<le> integrityScore (sys_page (run (mount t0 iid stored) acts))" by simp
  show ?thesis
    using r
    by (simp add: startProctoring_def addEvent_score addEvent_resume_score_step [OF nn]
          step_score_le [OF nn])
qed

lemmas eval_defs = run_def mount_def InterviewPage_def useFaceDetection_def useObjectDetection_def
  initializeCamera_def startProctoring_system_def startProctoring_def initializeFaceMesh_def
  loadModel_def addDemoEvent_def addEvent_def addEvent_resume_eq isActive_prop_def
  handleFaceDetection_def handleObjectDetection_def handleObjectDetection_each_def inCooldown_def
  onResults_def onResults_plain_def onResults_mock_def hasFace_of_def faceCount_of_def
  runDetection_def targetDetections_def DETECTION_CONFIG_def TARGET_OBJECTS_def
  stopProctoring_def updateDuration_def store_ok_def store_unreachable_def reads_at_def Let_def

text \<open>
  Witness for C1: after a start, a scored phone event and a book event the score is 80, and
  the settling of the book event's forward (not a start) takes it to 60.
\<close>

theorem C1_score_range_and_monotone_witness:
  "\<not> is_start (FetchSettles 0 store_unreachable :: unit action)
   \<and> integrityScore (sys_page (run (mount 1000 ''interview-1000'' None)
        [ClickInitializeCamera True, ClickStartProctoring 2000 FaceMesh True,
         ClickDemo (3000, 3000) SimulatePhoneDetected, FetchSettles 0 store_unreachable,
         ClickDemo (4000, 4000) SimulateBookDetected :: unit action])) = 80
   \<and> integrityScore (sys_page (step (run (mount 1000 ''interview-1000'' None)
        [ClickInitializeCamera True, ClickStartProctoring 2000 FaceMesh True,
         ClickDemo (3000, 3000) SimulatePhoneDetected, FetchSettles 0 store_unreachable,
         ClickDemo (4000, 4000) SimulateBookDetected])
        (FetchSettles 0 store_unreachable :: unit action))) = 60"
  using C1_score_range_and_monotone [of 1000 "''interview-1000''" None
      "[ClickInitializeCamera True, ClickStartProctoring 2000 FaceMesh True,
         ClickDemo (3000, 3000) SimulatePhoneDetected, FetchSettles 0 store_unreachable,
         ClickDemo (4000, 4000) SimulateBookDetected :: unit action]"
      0 "(0, 0)" face_absent "''''" high 0 store_ok
      "FetchSettles 0 store_unreachable"]
  by (simp add: eval_defs)


section \<open>The object filter and the object handler\<close>

lemma handleObjectDetection_each_spec:
  "handleObjectDetection_each now clock p d = spec_object_step now clock p d"
  by (simp add: handleObjectDetection_each_def spec_object_step_def spec_object_candidate_def
        gate_def Let_def DETECTION_CONFIG_def)

lemma handleObjectDetection_spec:
  "handleObjectDetection p now clock ds = foldl (spec_object_step now clock) p ds"
proof -
  have "handleObjectDetection_each now clock = spec_object_step now clock"
    by (intro ext) (rule handleObjectDetection_each_spec)
  then show ?thesis by (simp add: handleObjectDetection_def)
qed

lemma member_target: "c \<in> set TARGET_OBJECTS \<longleftrightarrow>
    c \<in> {''cell phone'', ''book'', ''laptop'', ''mouse'', ''keyboard''}"
  by (auto simp: TARGET_OBJECTS_def)

lemma targetDetections_spec:
  "targetDetections ps =
     map (\<lambda>p. \<lparr> dr_class = pr_class p, dr_confidence = pr_score p, dr_bbox = pr_bbox p \<rparr>)
       (filter spec_retained ps)"
proof -
  have "(\<lambda>p. List.member TARGET_OBJECTS (pr_class p)
                  \<and> pr_score p \<ge> CONFIDENCE_THRESHOLD DETECTION_CONFIG) = spec_retained"
    by (rule ext) (simp add: spec_retained_def member_target DETECTION_CONFIG_def)
  then show ?thesis by (simp add: targetDetections_def)
qed

lemma targetDetections_below:
  "\<forall>p \<in> set ps. pr_score p < 6 / 10 \<Longrightarrow> targetDetections ps = []"
  by (auto simp: targetDetections_spec spec_retained_def filter_empty_conv)

lemma objectTick_below:
  assumes "\<forall>p \<in> set ps. pr_score p < 6 / 10"
  shows "sys_page (step s (ObjectTick now clock (Predictions ps))) = sys_page s"
  by (simp add: runDetection_def targetDetections_below [OF assms])

lemma objectTick_delivers:
  assumes "isActive_prop (sys_page s) \<and> \<not> isDetectingRef (sys_object s)
           \<and> od_isModelReadyRef (sys_object s) \<and> modelRef (sys_object s)"
  shows "sys_page (step s (ObjectTick now clock (Predictions ps)))
           = handleObjectDetection (sys_page s) now clock (targetDetections ps)"
  using assms by (simp add: runDetection_def handleObjectDetection_def)

lemma gate_open_events:
  assumes "\<not> inCooldown (lastEventTimeRef st) key now cd"
  shows "events (gate st now reads key cd k d sev)
           = events st @ [\<lparr> ev_id = fst reads, ev_type = k, ev_timestamp = snd reads,
                            ev_description = d, ev_severity = sev \<rparr>]"
  using assms by (simp add: gate_def addEvent_def Let_def)

text \<open>
  C5. The object filter retains exactly the predictions whose class is one of cell phone,
  book, laptop, mouse, keyboard and whose score is at least 0.6, in order. The handler walks
  the batch it is given and hands the candidate of each detection (phone detected with
  severity high for a cell phone, book detected with severity high for a book) to the
  object gate of 10000 ms. An object tick on an active page with the model loaded hands
  exactly the retained batch to the handler; in particular a retained cell phone (a retained
  book) outside its cooldown appends one phone (book) event of severity high. A batch whose
  scores are all below 0.6 is dropped before the handler and leaves the page, with its log
  and score, unchanged.
\<close>

theorem C5_object_filter:
  "targetDetections ps =
     map (\<lambda>p. \<lparr> dr_class = pr_class p, dr_confidence = pr_score p, dr_bbox = pr_bbox p \<rparr>)
       (filter spec_retained ps)
   \<and> handleObjectDetection st now clock ds = foldl (spec_object_step now clock) st ds
   \<and> (isActive_prop (sys_page s) \<and> \<not> isDetectingRef (sys_object s)
        \<and> od_isModelReadyRef (sys_object s) \<and> modelRef (sys_object s) \<longrightarrow>
        sys_page (step s (ObjectTick now clock (Predictions ps)))
          = foldl (spec_object_step now clock) (sys_page s)
              (map (\<lambda>p. \<lparr> dr_class = pr_class p, dr_confidence = pr_score p,
                            dr_bbox = pr_bbox p \<rparr>)
                 (filter spec_retained ps)))
   \<and> (spec_retained p \<and> pr_class p = ''cell phone'' \<longrightarrow>
        map spec_object_candidate (targetDetections [p])
          = [Some (phone_detected, ''Mobile phone detected in frame'', high)])
   \<and> (spec_retained p \<and> pr_class p = ''book'' \<longrightarrow>
        map spec_object_candidate (targetDetections [p])
          = [Some (book_detected, ''Book or notes detected in frame'', high)])
   \<and> (isActive_prop (sys_page s) \<and> \<not> isDetectingRef (sys_object s)
        \<and> od_isModelReadyRef (sys_object s) \<and> modelRef (sys_object s)
        \<and> spec_retained p \<and> pr_class p = ''cell phone''
        \<and> \<not> inCooldown (lastEventTimeRef (sys_page s)) ''phone_detected'' now 10000 \<longrightarrow>
        events (sys_page (step s (ObjectTick now clock (Predictions [p]))))
          = events (sys_page s)
            @ [\<lparr> ev_id = fst (clock phone_detected), ev_type = phone_detected,
                 ev_timestamp = snd (clock phone_detected),
                 ev_description = ''Mobile phone detected in frame'', ev_severity = high \<rparr>])
   \<and> (isActive_prop (sys_page s) \<and> \<not> isDetectingRef (sys_object s)
        \<and> od_isModelReadyRef (sys_object s) \<and> modelRef (sys_object s)
        \<and> spec_retained p \<and> pr_class p = ''book''
        \<and> \<not> inCooldown (lastEventTimeRef (sys_page s)) ''book_detected'' now 10000 \<longrightarrow>
        events (sys_page (step s (ObjectTick now clock (Predictions [p]))))
          = events (sys_page s)
            @ [\<lparr> ev_id = fst (clock book_detected), ev_type = book_detected,
                 ev_timestamp = snd (clock book_detected),
                 ev_description = ''Book or notes detected in frame'', ev_severity = high \<rparr>])
   \<and> ((\<forall>q \<in> set qs. pr_score q < 6 / 10) \<longrightarrow>
        targetDetections qs = []
        \<and> sys_page (step s (ObjectTick now clock (Predictions qs))) = sys_page s)"
proof (intro conjI impI)
  show "targetDetections ps =
     map (\<lambda>p. \<lparr> dr_class = pr_class p, dr_confidence = pr_score p, dr_bbox = pr_bbox p \<rparr>)
       (filter spec_retained ps)"
    by (rule targetDetections_spec)
  show "handleObjectDetection st now clock ds = foldl (spec_object_step now clock) st ds"
    by (rule handleObjectDetection_spec)
  show "sys_page (step s (ObjectTick now clock (Predictions ps)))
          = foldl (spec_object_step now clock) (sys_page s)
              (map (\<lambda>p. \<lparr> dr_class = pr_class p, dr_confidence = pr_score p,
                            dr_bbox = pr_bbox p \<rparr>)
                 (filter spec_retained ps))"
    if "isActive_prop (sys_page s) \<and> \<not> isDetectingRef (sys_object s)
        \<and> od_isModelReadyRef (sys_object s) \<and> modelRef (sys_object s)"
    using objectTick_delivers [OF that, of now clock ps]
    by (simp only: handleObjectDetection_spec targetDetections_spec)
  show "map spec_object_candidate (targetDetections [p])
          = [Some (phone_detected, ''Mobile phone detected in frame'', high)]"
    if "spec_retained p \<and> pr_class p = ''cell phone''"
    using that by (simp add: targetDetections_spec spec_object_candidate_def)
  show "map spec_object_candidate (targetDetections [p])
          = [Some (book_detected, ''Book or notes detected in frame'', high)]"
    if "spec_retained p \<and> pr_class p = ''book''"
    using that by (simp add: targetDetections_spec spec_object_candidate_def)
  show "events (sys_page (step s (ObjectTick now clock (Predictions [p]))))
          = events (sys_page s)
            @ [\<lparr> ev_id = fst (clock phone_detected), ev_type = phone_detected,
                 ev_timestamp = snd (clock phone_detected),
                 ev_description = ''Mobile phone detected in frame'', ev_severity = high \<rparr>]"
    if a: "isActive_prop (sys_page s) \<and> \<not> isDetectingRef (sys_object s)
        \<and> od_isModelReadyRef (sys_object s) \<and> modelRef (sys_object s)
        \<and> spec_retained p \<and> pr_class p = ''cell phone''
        \<and> \<not> inCooldown (lastEventTimeRef (sys_page s)) ''phone_detected'' now 10000"
  proof -
    have "sys_page (step s (ObjectTick now clock (Predictions [p])))
        = handleObjectDetection (sys_page s) now clock (targetDetections [p])"
      using a by (intro objectTick_delivers) simp
    then show ?thesis using a
      by (simp add: handleObjectDetection_spec targetDetections_spec spec_object_step_def
            spec_object_candidate_def gate_open_events)
  qed
  show "events (sys_page (step s (ObjectTick now clock (Predictions [p]))))
          = events (sys_page s)
            @ [\<lparr> ev_id = fst (clock book_detected), ev_type = book_detected,
                 ev_timestamp = snd (clock book_detected),
                 ev_description = ''Book or notes detected in frame'', ev_severity = high \<rparr>]"
    if a: "isActive_prop (sys_page s) \<and> \<not> isDetectingRef (sys_object s)
        \<and> od_isModelReadyRef (sys_object s) \<and> modelRef (sys_object s)
        \<and> spec_retained p \<and> pr_class p = ''book''
        \<and> \<not> inCooldown (lastEventTimeRef (sys_page s)) ''book_detected'' now 10000"
  proof -
    have "sys_page (step s (ObjectTick now clock (Predictions [p])))
        = handleObjectDetection (sys_page s) now clock (targetDetections [p])"
      using a by (intro objectTick_delivers) simp
    then show ?thesis using a
      by (simp add: handleObjectDetection_spec targetDetections_spec spec_object_step_def
            spec_object_candidate_def gate_open_events)
  qed
  show "targetDetections qs = []" if "\<forall>q \<in> set qs. pr_score q < 6 / 10"
    using that by (rule targetDetections_below)
  show "sys_page (step s (ObjectTick now clock (Predictions qs))) = sys_page s"
    if "\<forall>q \<in> set qs. pr_score q < 6 / 10"
    using that by (rule objectTick_below)
qed

lemma handleObjectDetection_filter:
  "handleObjectDetection p now clock ds =
     handleObjectDetection p now clock
       (filter (\<lambda>d. dr_class d = ''cell phone'' \<or> dr_class d = ''book'') ds)"
  unfolding handleObjectDetection_def
proof (induction ds arbitrary: p)
  case Nil
  then show ?case by simp
next
  case (Cons d ds)
  show ?case
  proof (cases "dr_class d = ''cell phone'' \<or> dr_class d = ''book''")
    case True
    then show ?thesis using Cons.IH by auto
  next
    case False
    then have "handleObjectDetection_each now clock p d = p"
      by (simp add: handleObjectDetection_each_def)
    then show ?thesis using False Cons.IH by simp
  qed
qed

lemma handleObjectDetection_each_events:
  "\<exists>new. events (handleObjectDetection_each now clock p d) = events p @ new
         \<and> (\<forall>e \<in> set new. ev_type e = phone_detected \<or> ev_type e = book_detected)"
  by (simp add: handleObjectDetection_each_def Let_def addEvent_def)

lemma handleObjectDetection_events:
  "\<exists>new. events (handleObjectDetection p now clock ds) = events p @ new
         \<and> (\<forall>e \<in> set new. ev_type e = phone_detected \<or> ev_type e = book_detected)"
  unfolding handleObjectDetection_def
proof (induction ds arbitrary: p)
  case Nil
  then show ?case by simp
next
  case (Cons d ds)
  obtain n1 where n1: "events (handleObjectDetection_each now clock p d) = events p @ n1"
    "\<forall>e \<in> set n1. ev_type e = phone_detected \<or> ev_type e = book_detected"
    using handleObjectDetection_each_events by blast
  obtain n2 where n2: "events (foldl (handleObjectDetection_each now clock)
        (handleObjectDetection_each now clock p d) ds)
      = events (handleObjectDetection_each now clock p d) @ n2"
    "\<forall>e \<in> set n2. ev_type e = phone_detected \<or> ev_type e = book_detected"
    using Cons.IH by blast
  have "events (foldl (handleObjectDetection_each now clock) p (d # ds)) = events p @ (n1 @ n2)"
    using n1(1) n2(1) by simp
  moreover have "\<forall>e \<in> set (n1 @ n2). ev_type e = phone_detected \<or> ev_type e = book_detected"
    using n1(2) n2(2) by auto
  ultimately show ?case by blast
qed

text \<open>
  C10. A prediction of class laptop, mouse or keyboard with score at least 0.6 passes the
  object filter, yet as a detection it has no candidate and the handler leaves the page
  unchanged; a batch of such detections leaves the page unchanged; any batch has the effect
  of its cell phone and book detections alone; and every event the object handler appends
  is a phone or a book event.
\<close>

theorem C10_other_targets_inert:
  "(pr_class q \<in> {''laptop'', ''mouse'', ''keyboard''} \<and> pr_score q \<ge> 6 / 10 \<longrightarrow>
      targetDetections [q]
        = [\<lparr> dr_class = pr_class q, dr_confidence = pr_score q, dr_bbox = pr_bbox q \<rparr>])
   \<and> (dr_class d \<in> {''laptop'', ''mouse'', ''keyboard''} \<longrightarrow>
        spec_object_candidate d = None \<and> handleObjectDetection_each now clock st d = st)
   \<and> ((\<forall>d \<in> set ds. dr_class d \<in> {''laptop'', ''mouse'', ''keyboard''}) \<longrightarrow>
        handleObjectDetection st now clock ds = st)
   \<and> handleObjectDetection st now clock ds' =
        handleObjectDetection st now clock
          (filter (\<lambda>d. dr_class d = ''cell phone'' \<or> dr_class d = ''book'') ds')
   \<and> (\<exists>new. events (handleObjectDetection st now clock ds') = events st @ new
         \<and> (\<forall>e \<in> set new. ev_type e = phone_detected \<or> ev_type e = book_detected))"
proof (intro conjI impI)
  show "targetDetections [q]
        = [\<lparr> dr_class = pr_class q, dr_confidence = pr_score q, dr_bbox = pr_bbox q \<rparr>]"
    if "pr_class q \<in> {''laptop'', ''mouse'', ''keyboard''} \<and> pr_score q \<ge> 6 / 10"
    using that by (auto simp: targetDetections_spec spec_retained_def)
  show "spec_object_candidate d = None"
    if "dr_class d \<in> {''laptop'', ''mouse'', ''keyboard''}"
    using that by (auto simp: spec_object_candidate_def)
  show "handleObjectDetection_each now clock st d = st"
    if "dr_class d \<in> {''laptop'', ''mouse'', ''keyboard''}"
    using that by (auto simp: handleObjectDetection_each_def)
  show "handleObjectDetection st now clock ds = st"
    if a: "\<forall>d \<in> set ds. dr_class d \<in> {''laptop'', ''mouse'', ''keyboard''}"
  proof -
    have "filter (\<lambda>d. dr_class d = ''cell phone'' \<or> dr_class d = ''book'') ds = []"
      using a by (auto simp: filter_empty_conv)
    then show ?thesis
      using handleObjectDetection_filter [of st now clock ds]
      by (simp add: handleObjectDetection_def)
  qed
  show "handleObjectDetection st now clock ds' =
        handleObjectDetection st now clock
          (filter (\<lambda>d. dr_class d = ''cell phone'' \<or> dr_class d = ''book'') ds')"
    by (rule handleObjectDetection_filter)
  show "\<exists>new. events (handleObjectDetection st now clock ds') = events st @ new
         \<and> (\<forall>e \<in> set new. ev_type e = phone_detected \<or> ev_type e = book_detected)"
    by (rule handleObjectDetection_events)
qed

text \<open>
  Witness for C10: a laptop at 0.9 passes the filter, and a batch of a laptop and a mouse
  leaves the freshly rendered page as it was.
\<close>

theorem C10_other_targets_inert_witness:
  "pr_class \<lparr> pr_class = ''laptop'', pr_score = 9 / 10, pr_bbox = (0, 0, 1, 1) \<rparr>
       \<in> {''laptop'', ''mouse'', ''keyboard''}
   \<and> pr_score \<lparr> pr_class = ''laptop'', pr_score = 9 / 10, pr_bbox = (0, 0, 1, 1) \<rparr> \<ge> 6 / 10
   \<and> targetDetections [\<lparr> pr_class = ''laptop'', pr_score = 9 / 10, pr_bbox = (0, 0, 1, 1) \<rparr>]
       = [\<lparr> dr_class = ''laptop'', dr_confidence = 9 / 10, dr_bbox = (0, 0, 1, 1) \<rparr>]
   \<and> list_all (\<lambda>d. dr_class d \<in> {''laptop'', ''mouse'', ''keyboard''})
        [\<lparr> dr_class = ''laptop'', dr_confidence = 9 / 10, dr_bbox = (0, 0, 1, 1) \<rparr>,
         \<lparr> dr_class = ''mouse'', dr_confidence = 7 / 10, dr_bbox = (0, 0, 1, 1) \<rparr>]
   \<and> handleObjectDetection (InterviewPage ''interview-1'' None) 5000 (reads_at 5000)
        [\<lparr> dr_class = ''laptop'', dr_confidence = 9 / 10, dr_bbox = (0, 0, 1, 1) \<rparr>,
         \<lparr> dr_class = ''mouse'', dr_confidence = 7 / 10, dr_bbox = (0, 0, 1, 1) \<rparr>]
       = InterviewPage ''interview-1'' None"
  using C10_other_targets_inert [of "\<lparr> pr_class = ''laptop'', pr_score = 9 / 10, pr_bbox = (0, 0, 1, 1) \<rparr>"
     "\<lparr> dr_class = ''laptop'', dr_confidence = 9 / 10, dr_bbox = (0, 0, 1, 1) \<rparr>" 5000 "reads_at 5000"
     "InterviewPage ''interview-1'' None"
     "[\<lparr> dr_class = ''laptop'', dr_confidence = 9 / 10, dr_bbox = (0, 0, 1, 1) \<rparr>,
         \<lparr> dr_class = ''mouse'', dr_confidence = 7 / 10, dr_bbox = (0, 0, 1, 1) \<rparr>]" "[]"]
  by simp

text \<open>
  Witness for C5: on a started page with the model loaded, an object tick with a cell phone
  at 0.75 logs one phone event of severity high, which takes the score to 80 when its
  forward settles; a tick 2000 ms later with a cell phone at 0.55 changes nothing; a book at
  0.6 is retained.
\<close>

theorem C5_object_filter_witness:
  "isActive_prop (sys_page (run (mount 1000 ''interview-1000'' None)
        [ClickInitializeCamera True, ClickStartProctoring 2000 FaceMesh True :: unit action]))
   \<and> \<not> isDetectingRef (sys_object (run (mount 1000 ''interview-1000'' None)
        [ClickInitializeCamera True, ClickStartProctoring 2000 FaceMesh True :: unit action]))
   \<and> od_isModelReadyRef (sys_object (run (mount 1000 ''interview-1000'' None)
        [ClickInitializeCamera True, ClickStartProctoring 2000 FaceMesh True :: unit action]))
   \<and> modelRef (sys_object (run (mount 1000 ''interview-1000'' None)
        [ClickInitializeCamera True, ClickStartProctoring 2000 FaceMesh True :: unit action]))
   \<and> spec_retained \<lparr> pr_class = ''cell phone'', pr_score = 75 / 100, pr_bbox = (0, 0, 1, 1) \<rparr>
   \<and> \<not> inCooldown (lastEventTimeRef (sys_page (run (mount 1000 ''interview-1000'' None)
        [ClickInitializeCamera True, ClickStartProctoring 2000 FaceMesh True :: unit action])))
        ''phone_detected'' 5000 10000
   \<and> events (sys_page (step (run (mount 1000 ''interview-1000'' None)
        [ClickInitializeCamera True, ClickStartProctoring 2000 FaceMesh True :: unit action])
        (ObjectTick 5000 (reads_at 5000) (Predictions
           [\<lparr> pr_class = ''cell phone'', pr_score = 75 / 100, pr_bbox = (0, 0, 1, 1) \<rparr>]))))
       = [\<lparr> ev_id = 5000, ev_type = phone_detected, ev_timestamp = 5000,
            ev_description = ''Mobile phone detected in frame'', ev_severity = high \<rparr>]
   \<and> integrityScore (sys_page (run (mount 1000 ''interview-1000'' None)
        [ClickInitializeCamera True, ClickStartProctoring 2000 FaceMesh True,
         ObjectTick 5000 (reads_at 5000) (Predictions
           [\<lparr> pr_class = ''cell phone'', pr_score = 75 / 100, pr_bbox = (0, 0, 1, 1) \<rparr>]),
         FetchSettles 0 store_ok,
         ObjectTick 7000 (reads_at 7000) (Predictions
           [\<lparr> pr_class = ''cell phone'', pr_score = 55 / 100, pr_bbox = (0, 0, 1, 1) \<rparr>])
           :: unit action])) = 80
   \<and> list_all (\<lambda>q. pr_score q < 6 / 10)
        [\<lparr> pr_class = ''cell phone'', pr_score = 55 / 100, pr_bbox = (0, 0, 1, 1) \<rparr>]
   \<and> targetDetections [\<lparr> pr_class = ''cell phone'', pr_score = 55 / 100, pr_bbox = (0, 0, 1, 1) \<rparr>] = []
   \<and> spec_retained \<lparr> pr_class = ''book'', pr_score = 6 / 10, pr_bbox = (0, 0, 1, 1) \<rparr>"
  using C5_object_filter [of "[]" "InterviewPage ''interview-1000'' None" 5000 "reads_at 5000" "[]"
      "run (mount 1000 ''interview-1000'' None)
        [ClickInitializeCamera True, ClickStartProctoring 2000 FaceMesh True :: unit action]"
      "\<lparr> pr_class = ''cell phone'', pr_score = 75 / 100, pr_bbox = (0, 0, 1, 1) \<rparr>"
      "[\<lparr> pr_class = ''cell phone'', pr_score = 55 / 100, pr_bbox = (0, 0, 1, 1) \<rparr>]"]
  by (simp add: eval_defs spec_retained_def)



section \<open>The absence threshold of the face callbacks\<close>

lemma hasFace_faceCount: "hasFace_of r = (0 < faceCount_of r)"
  by (simp add: hasFace_of_def faceCount_of_def split: option.split)













section \<open>The stored report and its retrieval\<close>

lemma loadReport_stop:
  "loadReport (currentReport (stopProctoring st now)) t =
     (\<lparr> report_interviewId = interviewIdRef st, report_duration = interviewDuration st,
        report_events = events st, report_integrityScore = integrityScore st,
        report_startTime = (case startTimeRef st of None \<Rightarrow> 0 | Some t0 \<Rightarrow> t0),
        report_endTime = now \<rparr>, None)"
  by (simp add: loadReport_def stopProctoring_def Let_def)

text \<open>
  C8, as amended. The first retrieval after stopProctoring returns the values stored at the
  stop (interview id, duration, events, score, start and end time) and removes the stored
  item; a second retrieval therefore returns the demo report; and nothing the interview
  page does after the stop, short of another stop, changes the stored item (an event added,
  a forward that settles, a handler run, a duration tick, a start, a camera click).
\<close>

theorem C8_report_read_once:
  "loadReport (currentReport (stopProctoring st now)) t =
     (\<lparr> report_interviewId = interviewIdRef st, report_duration = interviewDuration st,
        report_events = events st, report_integrityScore = integrityScore st,
        report_startTime = (case startTimeRef st of None \<Rightarrow> 0 | Some t0 \<Rightarrow> t0),
        report_endTime = now \<rparr>, None)
   \<and> loadReport (snd (loadReport (currentReport (stopProctoring st now)) t)) t' =
       (\<lparr> report_interviewId = ''demo-interview'', report_duration = 0, report_events = [],
          report_integrityScore = 100, report_startTime = t', report_endTime = t' \<rparr>, None)
   \<and> currentReport (addEvent (stopProctoring st now) reads k d sev)
       = currentReport (stopProctoring st now)
   \<and> currentReport (addEvent_resume (stopProctoring st now) n fetch)
       = currentReport (stopProctoring st now)
   \<and> currentReport (handleFaceDetection (stopProctoring st now) t clock r)
       = currentReport (stopProctoring st now)
   \<and> currentReport (handleObjectDetection (stopProctoring st now) t clock ds)
       = currentReport (stopProctoring st now)
   \<and> currentReport (updateDuration (stopProctoring st now) t)
       = currentReport (stopProctoring st now)
   \<and> currentReport (startProctoring (stopProctoring st now) t)
       = currentReport (stopProctoring st now)
   \<and> currentReport (initializeCamera (stopProctoring st now) granted)
       = currentReport (stopProctoring st now)"
proof -
  have each: "currentReport (handleObjectDetection_each t clock p x) = currentReport p" for p x
    by (simp add: handleObjectDetection_each_def Let_def addEvent_def)
  have fold: "currentReport (foldl (handleObjectDetection_each t clock) p xs) = currentReport p"
    for p xs
    by (induction xs arbitrary: p) (simp_all add: each)
  show ?thesis
    by (simp add: loadReport_stop)
       (simp add: loadReport_def addEvent_def addEvent_resume_eq handleFaceDetection_def
          handleObjectDetection_def
          fold updateDuration_def startProctoring_def initializeCamera_def Let_def
          split: option.split)
qed

text \<open>
  C8 as stated fails: after a session with one scored face-absent event, the first retrieval
  returns the report with score 90 and the second, at the same time, the demo report with
  score 100.
\<close>

theorem C8_second_retrieval_differs:
  "fst (loadReport (currentReport (stopProctoring
          (addEvent_resume
             (addDemoEvent (startProctoring (InterviewPage ''interview-1000'' None) 2000)
                (3000, 3000) face_absent ''No face detected in frame'' high)
             0 store_unreachable) 9000)) 9500)
   \<noteq> fst (loadReport (snd (loadReport (currentReport (stopProctoring
          (addEvent_resume
             (addDemoEvent (startProctoring (InterviewPage ''interview-1000'' None) 2000)
                (3000, 3000) face_absent ''No face detected in frame'' high)
             0 store_unreachable) 9000)) 9500)) 9500)
   \<and> report_integrityScore (fst (loadReport (currentReport (stopProctoring
          (addEvent_resume
             (addDemoEvent (startProctoring (InterviewPage ''interview-1000'' None) 2000)
                (3000, 3000) face_absent ''No face detected in frame'' high)
             0 store_unreachable) 9000)) 9500)) = 90
   \<and> report_integrityScore (fst (loadReport (snd (loadReport (currentReport (stopProctoring
          (addEvent_resume
             (addDemoEvent (startProctoring (InterviewPage ''interview-1000'' None) 2000)
                (3000, 3000) face_absent ''No face detected in frame'' high)
             0 store_unreachable) 9000)) 9500)) 9500)) = 100"
  by (simp add: loadReport_def stopProctoring_def addDemoEvent_def addEvent_def
        addEvent_resume_eq startProctoring_def InterviewPage_def Let_def)


section \<open>Looking away\<close>

lemma callback_not_lookingAway:
  "snd (callback m a now h r) = Some c \<Longrightarrow> \<not> isLookingAway c"
  by (cases m)
     (auto simp: onResults_def onResults_plain_def onResults_mock_def Let_def split: if_splits)

lemma handleFaceDetection_events:
  assumes "\<not> isLookingAway r"
  shows "\<exists>new. events (handleFaceDetection p now clock r) = events p @ new
         \<and> (\<forall>e \<in> set new. ev_type e = face_absent \<or> ev_type e = multiple_faces)"
  using assms by (simp add: handleFaceDetection_def Let_def addEvent_def)

lemma demo_events:
  "\<exists>new. events (case demo_args b of (ty, description, sev) \<Rightarrow>
                     addDemoEvent p reads ty description sev) = events p @ new
         \<and> (\<forall>e \<in> set new. ev_type e \<noteq> looking_away)"
  by (cases b) (simp_all add: addDemoEvent_def addEvent_def Let_def)

lemma step_no_looking_away:
  assumes "\<forall>e \<in> set (events (sys_page s)). ev_type e \<noteq> looking_away"
  shows "\<forall>e \<in> set (events (sys_page (step s a))). ev_type e \<noteq> looking_away"
proof (cases a)
  case (ClickInitializeCamera g)
  then show ?thesis using assms by (simp add: initializeCamera_def)
next
  case (ClickStartProctoring now m l)
  then show ?thesis using assms
    by (simp add: startProctoring_system_def startProctoring_def initializeFaceMesh_def Let_def)
next
  case (ClickStopProctoring now)
  then show ?thesis using assms by (simp add: stopProctoring_def Let_def)
next
  case (ClickDemo reads b)
  obtain new where "events (case demo_args b of (ty, description, sev) \<Rightarrow>
                     addDemoEvent (sys_page s) reads ty description sev)
                    = events (sys_page s) @ new" "\<forall>e \<in> set new. ev_type e \<noteq> looking_away"
    using demo_events by blast
  then show ?thesis using assms ClickDemo by (auto split: prod.splits)
next
  case (FaceResults frameTime now clock r)
  show ?thesis
  proof (cases "faceMeshRef s")
    case None
    then show ?thesis using assms FaceResults by simp
  next
    case (Some m)
    obtain h call where cb: "callback m (isActive_prop (sys_page s)) frameTime (sys_face s) r = (h, call)"
      by (cases "callback m (isActive_prop (sys_page s)) frameTime (sys_face s) r")
    show ?thesis
    proof (cases call)
      case None
      then show ?thesis using assms FaceResults Some cb by simp
    next
      case (Some c)
      then have "\<not> isLookingAway c"
        using callback_not_lookingAway [of m "isActive_prop (sys_page s)" frameTime "sys_face s" r c] cb
        by simp
      then obtain new where "events (handleFaceDetection (sys_page s) now clock c)
            = events (sys_page s) @ new"
          "\<forall>e \<in> set new. ev_type e = face_absent \<or> ev_type e = multiple_faces"
        using handleFaceDetection_events by blast
      then show ?thesis using assms FaceResults \<open>faceMeshRef s = Some m\<close> cb Some by auto
    qed
  qed
next
  case (ObjectTick now clock outcome)
  obtain h call where rd: "runDetection (sys_object s) True outcome = (h, call)"
    by (cases "runDetection (sys_object s) True outcome")
  show ?thesis
  proof (cases call)
    case None
    then show ?thesis using assms ObjectTick rd by simp
  next
    case (Some ds)
    obtain new where "events (handleObjectDetection (sys_page s) now clock ds)
            = events (sys_page s) @ new"
          "\<forall>e \<in> set new. ev_type e = phone_detected \<or> ev_type e = book_detected"
      using handleObjectDetection_events by blast
    then show ?thesis using assms ObjectTick rd Some by auto
  qed
next
  case (DurationTick now)
  then show ?thesis using assms by (simp add: updateDuration_def split: option.split)
next
  case (FetchSettles n fetch)
  then show ?thesis using assms by (simp add: addEvent_resume_eq)
qed

lemma run_no_looking_away:
  "\<forall>e \<in> set (events (sys_page s)). ev_type e \<noteq> looking_away \<Longrightarrow>
   \<forall>e \<in> set (events (sys_page (run s acts))). ev_type e \<noteq> looking_away"
  unfolding run_def
proof (induction acts arbitrary: s)
  case Nil
  then show ?case by simp
next
  case (Cons a acts)
  show ?case using Cons.IH [OF step_no_looking_away [OF Cons.prems]] by simp
qed

lemma faceCount_None: "faceCount_of None = 0"
  by (simp add: faceCount_of_def)

lemma onResults_lookingAway_timer:
  "isModelReadyRef h \<Longrightarrow>
     lastLookingAwayTimeRef (fst (onResults True now h r))
       = (if faceCount_of r = 1 then now else lastLookingAwayTimeRef h)"
  by (auto simp: onResults_def Let_def hasFace_faceCount faceCount_None)

text \<open>
  C6, as amended. No callback of the hook ever reports looking away, so no looking-away
  event is ever logged, whatever the browser delivers; the looking-away timer is only
  refreshed (by a result with exactly one face, in the variant of the hook that has the
  refresh) and is never compared with the threshold.
\<close>

theorem C6_looking_away_never_emitted:
  "(snd (callback m a now h r) = Some c \<longrightarrow> \<not> isLookingAway c)
   \<and> (\<forall>e \<in> set (events (sys_page (run (mount t0 iid stored) acts))). ev_type e \<noteq> looking_away)
   \<and> (isModelReadyRef h \<longrightarrow>
        lastLookingAwayTimeRef (fst (onResults True now h r))
          = (if faceCount_of r = 1 then now else lastLookingAwayTimeRef h))"
proof (intro conjI impI)
  show "\<not> isLookingAway c" if "snd (callback m a now h r) = Some c"
    using that by (rule callback_not_lookingAway)
  show "\<forall>e \<in> set (events (sys_page (run (mount t0 iid stored) acts))). ev_type e \<noteq> looking_away"
    by (rule run_no_looking_away) (simp add: mount_def InterviewPage_def)
  show "lastLookingAwayTimeRef (fst (onResults True now h r))
          = (if faceCount_of r = 1 then now else lastLookingAwayTimeRef h)"
    if "isModelReadyRef h"
    using that by (rule onResults_lookingAway_timer)
qed


section \<open>The cooldown gates\<close>

lemma spaced_times_append:
  "spaced_times (xs @ [(k, t)]) \<longleftrightarrow>
     spaced_times xs \<and> list_all (\<lambda>(k1, t1). k \<noteq> k1 \<or> t - t1 \<ge> spec_cooldown k1) xs"
  by (induction xs) (auto simp: list_all_iff)

lemma spaced_times_nth:
  "spaced_times tr \<Longrightarrow> i < j \<Longrightarrow> j < length tr \<Longrightarrow> fst (tr ! i) = fst (tr ! j)
     \<Longrightarrow> snd (tr ! j) - snd (tr ! i) \<ge> spec_cooldown (fst (tr ! i))"
proof (induction tr arbitrary: i j)
  case Nil
  then show ?case by simp
next
  case (Cons x later)
  obtain k t where x: "x = (k, t)" by (cases x)
  obtain j' where j: "j = Suc j'" using Cons.prems(2) by (cases j) simp_all
  show ?case
  proof (cases i)
    case 0
    have "later ! j' \<in> set later" using Cons.prems(3) j by simp
    then have "fst (later ! j') \<noteq> k \<or> snd (later ! j') - t \<ge> spec_cooldown k"
      using Cons.prems(1) x by (auto simp: list_all_iff)
    then show ?thesis using Cons.prems(4) 0 j x by simp
  next
    case (Suc i')
    then show ?thesis using Cons.IH [of i' j'] Cons.prems j x by simp
  qed
qed

lemma spec_cooldown_pos: "0 < spec_cooldown k"
  by (cases k) simp_all

lemma eventKey_inj: "eventKey_of a = eventKey_of b \<longleftrightarrow> a = b"
  by (cases a; cases b) simp_all

lemma accepted_between_same: "accepted_between p p now = []"
  by (simp add: accepted_between_def)

lemma accepted_between_trans:
  assumes "events p1 = events p @ xs" "events p2 = events p1 @ ys"
  shows "accepted_between p p2 now = accepted_between p p1 now @ accepted_between p1 p2 now"
  using assms by (simp add: accepted_between_def)

lemma gate_ledger_ok:
  assumes ok: "ledger_ok past p" and pos: "0 < now"
  shows "ledger_ok (past @ accepted_between p
                     (gate p now reads (eventKey_of k) (spec_cooldown k) k d sev) now)
           (gate p now reads (eventKey_of k) (spec_cooldown k) k d sev)
         \<and> (\<exists>new. events (gate p now reads (eventKey_of k) (spec_cooldown k) k d sev)
                     = events p @ new)"
proof (cases "inCooldown (lastEventTimeRef p) (eventKey_of k) now (spec_cooldown k)")
  case True
  then show ?thesis using ok by (simp add: gate_def accepted_between_same)
next
  case False
  let ?p' = "gate p now reads (eventKey_of k) (spec_cooldown k) k d sev"
  let ?e = "\<lparr> ev_id = fst reads, ev_type = k, ev_timestamp = snd reads,
              ev_description = d, ev_severity = sev \<rparr>"
  have ev: "events ?p' = events p @ [?e]"
    and led: "lastEventTimeRef ?p' = (lastEventTimeRef p)(eventKey_of k \<mapsto> now)"
    using False by (simp_all add: gate_def addEvent_def Let_def)
  have acc: "accepted_between p ?p' now = [(k, now)]"
    by (simp add: accepted_between_def ev)
  have old: "t1 + spec_cooldown k \<le> now" if mem: "(k, t1) \<in> set past" for t1
  proof -
    obtain t where t: "lastEventTimeRef p (eventKey_of k) = Some t" "t \<noteq> 0" "t1 \<le> t"
      using ok mem unfolding ledger_ok_def by (auto simp: list_all_iff split: option.splits)
    then have "\<not> now - t < spec_cooldown k"
      using False by (simp add: inCooldown_def)
    then show ?thesis using t(3) by linarith
  qed
  have sep: "spec_cooldown k \<le> now - t1" if "(k, t1) \<in> set past" for t1
    using old [OF that] by simp
  have "spaced_times (past @ [(k, now)])"
    using ok sep by (auto simp: spaced_times_append ledger_ok_def list_all_iff)
  moreover have "case lastEventTimeRef ?p' (eventKey_of k1) of
                   None \<Rightarrow> False
                 | Some t' \<Rightarrow> t' \<noteq> 0 \<and> t1 \<le> t'" if "(k1, t1) \<in> set (past @ [(k, now)])" for k1 t1
  proof (cases "k1 = k")
    case True
    have "t1 \<le> now"
    proof (cases "(k1, t1) = (k, now)")
      case True
      then show ?thesis by simp
    next
      case False
      then have "(k, t1) \<in> set past" using that True by auto
      then show ?thesis using old [of t1] spec_cooldown_pos [of k] by linarith
    qed
    then show ?thesis using True pos by (simp add: led)
  next
    case False
    then have "(k1, t1) \<in> set past" using that by auto
    then show ?thesis using ok False
      by (auto simp: led ledger_ok_def eventKey_inj list_all_iff)
  qed
  ultimately have "ledger_ok (past @ [(k, now)]) ?p'"
    unfolding ledger_ok_def by (auto simp: list_all_iff)
  then show ?thesis using acc ev by simp
qed

lemma handleFaceDetection_gate:
  "handleFaceDetection p now clock r =
     (if \<not> hasFace r then
        gate p now (clock face_absent) (eventKey_of face_absent) (spec_cooldown face_absent)
          face_absent ''No face detected in frame'' high
      else if faceCount r > 1 then
        gate p now (clock multiple_faces) (eventKey_of multiple_faces)
          (spec_cooldown multiple_faces) multiple_faces ''Multiple faces detected in frame'' high
      else if isLookingAway r then
        gate p now (clock looking_away) (eventKey_of looking_away) (spec_cooldown looking_away)
          looking_away ''Candidate looked away from screen'' medium
      else p)"
  by (simp add: handleFaceDetection_def gate_def Let_def DETECTION_CONFIG_def)

lemma handleObjectDetection_each_gates:
  "handleObjectDetection_each now clock p d =
     (if dr_class d = ''cell phone'' then
        gate p now (clock phone_detected) (eventKey_of phone_detected)
          (spec_cooldown phone_detected) phone_detected ''Mobile phone detected in frame'' high
      else if dr_class d = ''book'' then
        gate p now (clock book_detected) (eventKey_of book_detected)
          (spec_cooldown book_detected) book_detected ''Book or notes detected in frame'' high
      else p)"
  by (simp add: handleObjectDetection_each_def gate_def Let_def DETECTION_CONFIG_def)

lemma handleFaceDetection_ledger_ok:
  assumes "ledger_ok past p" "0 < now"
  shows "ledger_ok (past @ accepted_between p (handleFaceDetection p now clock r) now)
           (handleFaceDetection p now clock r)"
  using assms gate_ledger_ok [OF assms]
  by (simp add: handleFaceDetection_gate accepted_between_same
        del: eventKey_of.simps spec_cooldown.simps)

lemma handleObjectDetection_each_ledger_ok:
  assumes "ledger_ok past p" "0 < now"
  shows "ledger_ok (past @ accepted_between p (handleObjectDetection_each now clock p d) now)
           (handleObjectDetection_each now clock p d)
         \<and> (\<exists>new. events (handleObjectDetection_each now clock p d) = events p @ new)"
  using assms gate_ledger_ok [OF assms]
  by (simp add: handleObjectDetection_each_gates accepted_between_same
        del: eventKey_of.simps spec_cooldown.simps)

lemma handleObjectDetection_ledger_ok:
  "ledger_ok past p \<Longrightarrow> 0 < now \<Longrightarrow>
     ledger_ok (past @ accepted_between p (handleObjectDetection p now clock ds) now)
       (handleObjectDetection p now clock ds)
     \<and> (\<exists>new. events (handleObjectDetection p now clock ds) = events p @ new)"
  unfolding handleObjectDetection_def
proof (induction ds arbitrary: p past)
  case Nil
  then show ?case by (simp add: accepted_between_same)
next
  case (Cons d ds)
  let ?p1 = "handleObjectDetection_each now clock p d"
  let ?p2 = "foldl (handleObjectDetection_each now clock) ?p1 ds"
  obtain n1 where one: "ledger_ok (past @ accepted_between p ?p1 now) ?p1"
    and e1: "events ?p1 = events p @ n1"
    using handleObjectDetection_each_ledger_ok [OF Cons.prems] by blast
  obtain n2 where two: "ledger_ok ((past @ accepted_between p ?p1 now)
                          @ accepted_between ?p1 ?p2 now) ?p2"
    and e2: "events ?p2 = events ?p1 @ n2"
    using Cons.IH [OF one Cons.prems(2)] by blast
  have "accepted_between p ?p2 now = accepted_between p ?p1 now @ accepted_between ?p1 ?p2 now"
    using e1 e2 by (rule accepted_between_trans)
  then show ?case using two e1 e2 by simp
qed

lemma ledger_ok_same_ledger:
  "ledger_ok past p \<Longrightarrow> lastEventTimeRef p' = lastEventTimeRef p \<Longrightarrow> ledger_ok past p'"
  by (simp add: ledger_ok_def)

lemma step_ledger_ok:
  assumes ok: "ledger_ok past (sys_page s)" and pos: "positive_clock a"
  shows "ledger_ok (past @ gate_accepts s a) (sys_page (step s a))"
proof (cases a)
  case (ClickInitializeCamera g)
  then show ?thesis
    by (auto intro: ledger_ok_same_ledger [OF ok] simp: gate_accepts_def initializeCamera_def)
next
  case (ClickStartProctoring now m l)
  then show ?thesis
    by (auto intro: ledger_ok_same_ledger [OF ok]
          simp: gate_accepts_def startProctoring_system_def startProctoring_def
            initializeFaceMesh_def Let_def)
next
  case (ClickStopProctoring now)
  then show ?thesis
    by (auto intro: ledger_ok_same_ledger [OF ok] simp: gate_accepts_def stopProctoring_def Let_def)
next
  case (ClickDemo reads b)
  then show ?thesis
    by (auto intro: ledger_ok_same_ledger [OF ok]
          simp: gate_accepts_def addDemoEvent_def addEvent_def Let_def split: prod.split)
next
  case (FaceResults frameTime now clock r)
  then have n: "0 < now" using pos by simp
  show ?thesis
  proof (cases "faceMeshRef s")
    case None
    then show ?thesis using ok FaceResults by (simp add: gate_accepts_def accepted_between_same)
  next
    case (Some m)
    obtain h call where cb:
      "callback m (isActive_prop (sys_page s)) frameTime (sys_face s) r = (h, call)"
      by (cases "callback m (isActive_prop (sys_page s)) frameTime (sys_face s) r")
    show ?thesis
    proof (cases call)
      case None
      then show ?thesis using ok FaceResults Some cb
        by (simp add: gate_accepts_def accepted_between_same)
    next
      case (Some c)
      then show ?thesis
        using handleFaceDetection_ledger_ok [OF ok n, of clock c] FaceResults
          \<open>faceMeshRef s = Some m\<close> cb
        by (simp add: gate_accepts_def)
    qed
  qed
next
  case (ObjectTick now clock outcome)
  then have n: "0 < now" using pos by simp
  obtain h call where rd: "runDetection (sys_object s) True outcome = (h, call)"
    by (cases "runDetection (sys_object s) True outcome")
  show ?thesis
  proof (cases "isActive_prop (sys_page s) \<and> \<not> isDetectingRef (sys_object s)
           \<and> od_isModelReadyRef (sys_object s)")
    case False
    then show ?thesis using ok ObjectTick by (auto simp: gate_accepts_def accepted_between_same)
  next
    case True
    show ?thesis
    proof (cases call)
      case None
      then show ?thesis using ok ObjectTick rd True
        by (simp add: gate_accepts_def accepted_between_same)
    next
      case (Some ds)
      then show ?thesis
        using handleObjectDetection_ledger_ok [OF ok n, of clock ds] ObjectTick rd True
        by (simp add: gate_accepts_def)
    qed
  qed
next
  case (DurationTick now)
  then show ?thesis
    by (auto intro: ledger_ok_same_ledger [OF ok]
          simp: gate_accepts_def updateDuration_def split: option.split)
next
  case (FetchSettles n fetch)
  then show ?thesis
    by (auto intro: ledger_ok_same_ledger [OF ok] simp: gate_accepts_def addEvent_resume_eq)
qed

lemma run_spaced:
  "ledger_ok past (sys_page s) \<Longrightarrow> \<forall>a \<in> set acts. positive_clock a
     \<Longrightarrow> spaced_times (past @ acceptances s acts)"
proof (induction acts arbitrary: s past)
  case Nil
  then show ?case by (simp add: ledger_ok_def)
next
  case (Cons a acts)
  have a: "ledger_ok (past @ gate_accepts s a) (sys_page (step s a))"
    using Cons.prems by (intro step_ledger_ok) simp_all
  have b: "\<forall>a \<in> set acts. positive_clock a"
    using Cons.prems(2) by simp
  from Cons.IH [OF a b] show ?case by simp
qed

lemma mount_ledger_ok: "ledger_ok [] (sys_page (mount t0 iid stored))"
  by (simp add: ledger_ok_def)

text \<open>
  C3, as amended. In every run of the page (with positive clock readings in the handlers),
  demo clicks included, any two acceptances of one kind by the cooldown gates are at least
  the kind's cooldown apart on the handlers' clock readings: 5000 ms for the face kinds and
  10000 ms for the object kinds. A candidate whose kind has no recorded acceptance passes
  the gate: it is appended to the log, its forward and score update are started, and its
  time is recorded. The five branches of the two handlers are this gate with these keys and
  windows. (The timestamp of the logged event is a later reading of the clock.)
\<close>

theorem C3_gate_acceptances_spaced:
  "((\<forall>a \<in> set acts. positive_clock a) \<longrightarrow>
       spaced_times (acceptances (mount t0 iid stored) acts)
       \<and> (\<forall>j < length (acceptances (mount t0 iid stored) acts). \<forall>i < j.
             fst (acceptances (mount t0 iid stored) acts ! i)
               = fst (acceptances (mount t0 iid stored) acts ! j)
             \<longrightarrow> snd (acceptances (mount t0 iid stored) acts ! j)
                   - snd (acceptances (mount t0 iid stored) acts ! i)
                 \<ge> spec_cooldown (fst (acceptances (mount t0 iid stored) acts ! i))))
   \<and> (lastEventTimeRef st key = None \<longrightarrow>
        events (gate st now reads key cd k d sev)
          = events st @ [\<lparr> ev_id = fst reads, ev_type = k, ev_timestamp = snd reads,
                           ev_description = d, ev_severity = sev \<rparr>]
        \<and> awaitingLog (gate st now reads key cd k d sev)
          = awaitingLog st @ [\<lparr> ev_id = fst reads, ev_type = k, ev_timestamp = snd reads,
                                ev_description = d, ev_severity = sev \<rparr>]
        \<and> lastEventTimeRef (gate st now reads key cd k d sev) key = Some now)
   \<and> handleFaceDetection st now clock r =
       (if \<not> hasFace r then
          gate st now (clock face_absent) ''face_absent'' 5000 face_absent
            ''No face detected in frame'' high
        else if faceCount r > 1 then
          gate st now (clock multiple_faces) ''multiple_faces'' 5000 multiple_faces
            ''Multiple faces detected in frame'' high
        else if isLookingAway r then
          gate st now (clock looking_away) ''looking_away'' 5000 looking_away
            ''Candidate looked away from screen'' medium
        else st)
   \<and> handleObjectDetection_each now clock st x =
       (if dr_class x = ''cell phone'' then
          gate st now (clock phone_detected) ''phone_detected'' 10000 phone_detected
            ''Mobile phone detected in frame'' high
        else if dr_class x = ''book'' then
          gate st now (clock book_detected) ''book_detected'' 10000 book_detected
            ''Book or notes detected in frame'' high
        else st)"
proof (intro conjI impI allI)
  assume g: "\<forall>a \<in> set acts. positive_clock a"
  have "spaced_times ([] @ acceptances (mount t0 iid stored) acts)"
    using mount_ledger_ok g by (rule run_spaced)
  then show sp: "spaced_times (acceptances (mount t0 iid stored) acts)" by simp
  fix j i
  assume "j < length (acceptances (mount t0 iid stored) acts)" "i < j"
    "fst (acceptances (mount t0 iid stored) acts ! i)
       = fst (acceptances (mount t0 iid stored) acts ! j)"
  then show "snd (acceptances (mount t0 iid stored) acts ! j)
                   - snd (acceptances (mount t0 iid stored) acts ! i)
                 \<ge> spec_cooldown (fst (acceptances (mount t0 iid stored) acts ! i))"
    using spaced_times_nth [OF sp] by blast
next
  assume "lastEventTimeRef st key = None"
  then show "events (gate st now reads key cd k d sev)
          = events st @ [\<lparr> ev_id = fst reads, ev_type = k, ev_timestamp = snd reads,
                           ev_description = d, ev_severity = sev \<rparr>]"
    and "awaitingLog (gate st now reads key cd k d sev)
          = awaitingLog st @ [\<lparr> ev_id = fst reads, ev_type = k, ev_timestamp = snd reads,
                                ev_description = d, ev_severity = sev \<rparr>]"
    and "lastEventTimeRef (gate st now reads key cd k d sev) key = Some now"
    by (simp_all add: gate_def inCooldown_def addEvent_def Let_def)
next
  show "handleFaceDetection st now clock r =
       (if \<not> hasFace r then
          gate st now (clock face_absent) ''face_absent'' 5000 face_absent
            ''No face detected in frame'' high
        else if faceCount r > 1 then
          gate st now (clock multiple_faces) ''multiple_faces'' 5000 multiple_faces
            ''Multiple faces detected in frame'' high
        else if isLookingAway r then
          gate st now (clock looking_away) ''looking_away'' 5000 looking_away
            ''Candidate looked away from screen'' medium
        else st)"
    using handleFaceDetection_gate [of st now clock r] by simp
  show "handleObjectDetection_each now clock st x =
       (if dr_class x = ''cell phone'' then
          gate st now (clock phone_detected) ''phone_detected'' 10000 phone_detected
            ''Mobile phone detected in frame'' high
        else if dr_class x = ''book'' then
          gate st now (clock book_detected) ''book_detected'' 10000 book_detected
            ''Book or notes detected in frame'' high
        else st)"
    using handleObjectDetection_each_gates [of now clock st x] by simp
qed


section \<open>Concrete runs\<close>

text \<open>
  C7 fails on the code. startProctoring leaves the last-face-seen timestamp as it is, so it
  still holds the time of the hook's first render: a page mounted at 1000 and started at
  61000 has the timestamp 1000 after the start, and an empty face result at 65000, 4000 ms
  into the session, is logged as a face-absent event and scored (the score is 90).
\<close>

theorem C7_absent_within_grace_of_start:
  "lastFaceTimeRef (sys_face (startProctoring_system s now installed loaded))
     = lastFaceTimeRef (sys_face s)
   \<and> startTimeRef (sys_page (run (mount 1000 ''interview-1000'' None)
        [ClickInitializeCamera True, ClickStartProctoring 61000 FaceMesh True,
         FaceResults 65000 65000 (reads_at 65000) (Some ([] :: unit list))])) = Some 61000
   \<and> lastFaceTimeRef (sys_face (run (mount 1000 ''interview-1000'' None)
        [ClickInitializeCamera True, ClickStartProctoring 61000 FaceMesh True
           :: unit action])) = 1000
   \<and> 65000 - 61000 \<le> FACE_ABSENT_THRESHOLD DETECTION_CONFIG
   \<and> events (sys_page (run (mount 1000 ''interview-1000'' None)
        [ClickInitializeCamera True, ClickStartProctoring 61000 FaceMesh True,
         FaceResults 65000 65000 (reads_at 65000) (Some ([] :: unit list))]))
       = [\<lparr> ev_id = 65000, ev_type = face_absent, ev_timestamp = 65000,
            ev_description = ''No face detected in frame'', ev_severity = high \<rparr>]
   \<and> integrityScore (sys_page (run (mount 1000 ''interview-1000'' None)
        [ClickInitializeCamera True, ClickStartProctoring 61000 FaceMesh True,
         FaceResults 65000 65000 (reads_at 65000) (Some ([] :: unit list)),
         FetchSettles 0 store_ok])) = 90"
  by (simp add: eval_defs)

text \<open>
  C3 as stated fails: two clicks on the face-absent demo control 1 ms apart are both
  appended to the log and scored (the score is 80). And two gated face-absent events whose
  gate readings are 13000 and 18000 are logged with the timestamps 13001 and 18000 when the
  clock ticks between the handler's reading and addEvent's.
\<close>

theorem C3_demo_events_ungated:
  "events (sys_page (run (mount 1000 ''interview-1000'' None)
        [ClickInitializeCamera True, ClickStartProctoring 2000 FaceMesh True,
         ClickDemo (3000, 3000) SimulateFaceAbsent,
         ClickDemo (3001, 3001) SimulateFaceAbsent,
         FetchSettles 0 store_ok, FetchSettles 0 store_ok :: unit action]))
     = [\<lparr> ev_id = 3000, ev_type = face_absent, ev_timestamp = 3000,
          ev_description = ''No face detected in frame'', ev_severity = high \<rparr>,
        \<lparr> ev_id = 3001, ev_type = face_absent, ev_timestamp = 3001,
          ev_description = ''No face detected in frame'', ev_severity = high \<rparr>]
   \<and> integrityScore (sys_page (run (mount 1000 ''interview-1000'' None)
        [ClickInitializeCamera True, ClickStartProctoring 2000 FaceMesh True,
         ClickDemo (3000, 3000) SimulateFaceAbsent,
         ClickDemo (3001, 3001) SimulateFaceAbsent,
         FetchSettles 0 store_ok, FetchSettles 0 store_ok :: unit action])) = 80
   \<and> \<not> cooldown_respected (events (sys_page (run (mount 1000 ''interview-1000'' None)
        [ClickInitializeCamera True, ClickStartProctoring 2000 FaceMesh True,
         ClickDemo (3000, 3000) SimulateFaceAbsent,
         ClickDemo (3001, 3001) SimulateFaceAbsent,
         FetchSettles 0 store_ok, FetchSettles 0 store_ok :: unit action])))
   \<and> map ev_timestamp (events (sys_page (run (mount 1000 ''interview-1000'' None)
        [ClickInitializeCamera True, ClickStartProctoring 2000 FaceMesh True,
         FaceResults 13000 13000 (reads_at 13001) (Some ([] :: unit list)),
         FaceResults 18000 18000 (reads_at 18000) (Some [])]))) = [13001, 18000]
   \<and> \<not> cooldown_respected (events (sys_page (run (mount 1000 ''interview-1000'' None)
        [ClickInitializeCamera True, ClickStartProctoring 2000 FaceMesh True,
         FaceResults 13000 13000 (reads_at 13001) (Some ([] :: unit list)),
         FaceResults 18000 18000 (reads_at 18000) (Some [])])))"
  by (simp add: eval_defs cooldown_respected_def)

text \<open>
  Witness for C3: empty face results handled at 13000, 14000 and 18000 ms (the hook was
  mounted at 1000), with a demo click in between, give gate acceptances at 13000 and 18000
  only; a phone candidate on an empty ledger is accepted.
\<close>

theorem C3_gate_acceptances_spaced_witness:
  "list_all positive_clock
     [ClickInitializeCamera True, ClickStartProctoring 2000 FaceMesh True,
      FaceResults 13000 13000 (reads_at 13001) (Some ([] :: unit list)),
      ClickDemo (13500, 13500) SimulateFaceAbsent,
      FaceResults 14000 14000 (reads_at 14000) (Some []),
      FaceResults 18000 18000 (reads_at 18000) (Some [])]
   \<and> acceptances (mount 1000 ''interview-1000'' None)
        [ClickInitializeCamera True, ClickStartProctoring 2000 FaceMesh True,
         FaceResults 13000 13000 (reads_at 13001) (Some ([] :: unit list)),
         ClickDemo (13500, 13500) SimulateFaceAbsent,
         FaceResults 14000 14000 (reads_at 14000) (Some []),
         FaceResults 18000 18000 (reads_at 18000) (Some [])]
       = [(face_absent, 13000), (face_absent, 18000)]
   \<and> spaced_times (acceptances (mount 1000 ''interview-1000'' None)
        [ClickInitializeCamera True, ClickStartProctoring 2000 FaceMesh True,
         FaceResults 13000 13000 (reads_at 13001) (Some ([] :: unit list)),
         ClickDemo (13500, 13500) SimulateFaceAbsent,
         FaceResults 14000 14000 (reads_at 14000) (Some []),
         FaceResults 18000 18000 (reads_at 18000) (Some [])])
   \<and> map ev_timestamp (events (sys_page (run (mount 1000 ''interview-1000'' None)
        [ClickInitializeCamera True, ClickStartProctoring 2000 FaceMesh True,
         FaceResults 13000 13000 (reads_at 13001) (Some ([] :: unit list)),
         ClickDemo (13500, 13500) SimulateFaceAbsent,
         FaceResults 14000 14000 (reads_at 14000) (Some []),
         FaceResults 18000 18000 (reads_at 18000) (Some [])]))) = [13001, 13500, 18000]
   \<and> lastEventTimeRef (InterviewPage ''interview-1000'' None) ''phone_detected'' = None
   \<and> map ev_type (events (gate (InterviewPage ''interview-1000'' None) 5000 (5000, 5000)
        ''phone_detected'' 10000 phone_detected ''Mobile phone detected in frame'' high))
       = [phone_detected]"
  using C3_gate_acceptances_spaced [of
      "[ClickInitializeCamera True, ClickStartProctoring 2000 FaceMesh True,
         FaceResults 13000 13000 (reads_at 13001) (Some ([] :: unit list)),
         ClickDemo (13500, 13500) SimulateFaceAbsent,
         FaceResults 14000 14000 (reads_at 14000) (Some []),
         FaceResults 18000 18000 (reads_at 18000) (Some [])]" 1000 "''interview-1000''" None
      "InterviewPage ''interview-1000'' None" "''phone_detected''" 5000 "(5000, 5000)"
      10000 phone_detected "''Mobile phone detected in frame''" high "reads_at 5000"
      "\<lparr> hasFace = True, faceCount = 1, isLookingAway = False, landmarks = None \<rparr>"
      "\<lparr> dr_class = ''laptop'', dr_confidence = 9 / 10, dr_bbox = (0, 0, 1, 1) \<rparr>"]
  by (simp add: eval_defs gate_def gate_accepts_def accepted_between_def)

text \<open>
  Witness for C6: the candidate emitted for an empty result 12000 ms after the last face
  reports no looking away, and the looking-away timer is left as it was.
\<close>

theorem C6_looking_away_never_emitted_witness:
  "snd (callback FaceMesh True 13000
          \<lparr> lastFaceTimeRef = 1000, lastLookingAwayTimeRef = 1000, isModelReadyRef = True \<rparr>
          (Some ([] :: unit list)))
     = Some \<lparr> hasFace = False, faceCount = 0, isLookingAway = False, landmarks = None \<rparr>
   \<and> \<not> isLookingAway
         \<lparr> hasFace = False, faceCount = 0, isLookingAway = False, landmarks = (None :: unit list option) \<rparr>
   \<and> isModelReadyRef \<lparr> lastFaceTimeRef = 1000, lastLookingAwayTimeRef = 1000, isModelReadyRef = True \<rparr>
   \<and> lastLookingAwayTimeRef (fst (onResults True 13000
          \<lparr> lastFaceTimeRef = 1000, lastLookingAwayTimeRef = 1000, isModelReadyRef = True \<rparr>
          (Some ([] :: unit list)))) = 1000"
  using C6_looking_away_never_emitted [of FaceMesh True 13000
      "\<lparr> lastFaceTimeRef = 1000, lastLookingAwayTimeRef = 1000, isModelReadyRef = True \<rparr>"
      "Some ([] :: unit list)"
      "\<lparr> hasFace = False, faceCount = 0, isLookingAway = False, landmarks = None \<rparr>"
      1000 "''interview-1000''" None "[]"]
  by (simp add: eval_defs)

text \<open>
  C6 as stated fails: a single face seen at 3000 and again at 9000 ms makes the time since
  the looking-away timer exceed 5000 ms, yet the callback emits nothing, the log stays
  empty and the looking-away gate is never reached.
\<close>

theorem C6_inattentive_face_emits_nothing:
  "9000 - lastLookingAwayTimeRef (sys_face (run (mount 1000 ''interview-1000'' None)
        [ClickInitializeCamera True, ClickStartProctoring 2000 FaceMesh True,
         FaceResults 3000 3000 (reads_at 3000) (Some [()])]))
     > LOOKING_AWAY_THRESHOLD DETECTION_CONFIG
   \<and> snd (onResults True 9000 (sys_face (run (mount 1000 ''interview-1000'' None)
        [ClickInitializeCamera True, ClickStartProctoring 2000 FaceMesh True,
         FaceResults 3000 3000 (reads_at 3000) (Some [()])])) (Some [()])) = None
   \<and> events (sys_page (run (mount 1000 ''interview-1000'' None)
        [ClickInitializeCamera True, ClickStartProctoring 2000 FaceMesh True,
         FaceResults 3000 3000 (reads_at 3000) (Some [()]),
         FaceResults 9000 9000 (reads_at 9000) (Some [()])])) = []
   \<and> lastEventTimeRef (sys_page (run (mount 1000 ''interview-1000'' None)
        [ClickInitializeCamera True, ClickStartProctoring 2000 FaceMesh True,
         FaceResults 3000 3000 (reads_at 3000) (Some [()]),
         FaceResults 9000 9000 (reads_at 9000) (Some [()])])) ''looking_away'' = None"
  by (simp add: eval_defs)


end
